theory Spec2Isabelle
  imports Complex_Main "HOL-Library.Word"
begin

section \<open>JavaScript values used by the node pack\<close>

text \<open>
  Strings are modelled as lists of ASCII characters. Every string the modelled code
  inspects (addresses, hexadecimal data, decimal amounts, unit names) is ASCII; characters
  above 127 are treated as ordinary characters that are neither white space, digits nor
  letters.

  Every \<^verbatim>\<open>throw\<close> of the source, and every exception raised by a built-in
  or by an external library, is a value of the type \<open>error\<close>; a function that can
  throw returns \<open>error + 'a\<close>.
\<close>

datatype error =
    SyntaxError                 \<comment> \<open>\<^verbatim>\<open>BigInt(s)\<close> on a string that is not an integer literal\<close>
  | RangeError                  \<comment> \<open>\<^verbatim>\<open>BigInt(x)\<close> on a number that is not an integer\<close>
  | TypeError                   \<comment> \<open>arithmetic mixing a BigInt with another type\<close>
  | UnknownUnit string          \<comment> \<open>\<^verbatim>\<open>new Error(`Unknown unit: ${unit}`)\<close>\<close>
  | FeeDelegationFailed string  \<comment> \<open>\<^verbatim>\<open>new Error(`Fee delegation failed: ${error}`)\<close>\<close>
  | UnknownNetwork string       \<comment> \<open>\<^verbatim>\<open>new Error(`Unknown network: ${network}`)\<close>\<close>
  | ExternalError string        \<comment> \<open>thrown by a collaborator: axios, ethers, thor-devkit, JSON.parse\<close>

definition bind_err :: "error + 'a \<Rightarrow> ('a \<Rightarrow> error + 'b) \<Rightarrow> error + 'b" where
  "bind_err r f = (case r of Inl e \<Rightarrow> Inl e | Inr v \<Rightarrow> f v)"

text \<open>
  A JavaScript number is an IEEE double: a finite double is \<open>m * 2 ^ e\<close> for integers
  \<open>m\<close> and \<open>e\<close>, written \<open>Finite m e\<close> here (several pairs denote the same number).
\<close>

datatype js_number = Finite int int | NaN | PosInfinity | NegInfinity

definition integerNumber :: "int \<Rightarrow> js_number" where
  "integerNumber n = Finite n 0"

text \<open>\<^verbatim>\<open>BigInt(x)\<close> for a number \<open>x\<close>: the integer itself, or a RangeError when
  \<open>x\<close> is not an integer.\<close>

definition BigInt_number :: "js_number \<Rightarrow> error + int" where
  "BigInt_number x =
     (case x of
        Finite m e \<Rightarrow>
          (if 0 \<le> e then Inr (m * 2 ^ nat e)
           else if m mod 2 ^ nat (- e) = 0 then Inr (m div 2 ^ nat (- e))
           else Inl RangeError)
      | NaN \<Rightarrow> Inl RangeError
      | PosInfinity \<Rightarrow> Inl RangeError
      | NegInfinity \<Rightarrow> Inl RangeError)"

definition isInteger :: "js_number \<Rightarrow> bool" where
  "isInteger x = (case BigInt_number x of Inl e \<Rightarrow> False | Inr n \<Rightarrow> True)"

subsection \<open>Strings\<close>

text \<open>\<^verbatim>\<open>s.toLowerCase()\<close> on ASCII.\<close>

definition lowerChar :: "char \<Rightarrow> char" where
  "lowerChar c =
     (case map_of (zip ''ABCDEFGHIJKLMNOPQRSTUVWXYZ'' ''abcdefghijklmnopqrstuvwxyz'') c of
        None \<Rightarrow> c
      | Some l \<Rightarrow> l)"

definition toLowerCase :: "string \<Rightarrow> string" where
  "toLowerCase s = map lowerChar s"

text \<open>The white space of ASCII. JavaScript also counts U+00A0, U+FEFF, U+2028 and other
  characters beyond ASCII as white space; no string of the model holds them.\<close>

definition isWhiteSpace :: "char \<Rightarrow> bool" where
  "isWhiteSpace c \<longleftrightarrow> (of_char c :: nat) \<in> {9, 10, 11, 12, 13, 32}"

definition trimString :: "string \<Rightarrow> string" where
  "trimString s = rev (dropWhile isWhiteSpace (rev (dropWhile isWhiteSpace s)))"

definition startsWith :: "string \<Rightarrow> string \<Rightarrow> bool" where
  "startsWith s p \<longleftrightarrow> take (length p) s = p"

text \<open>\<^verbatim>\<open>s.padStart(n, c)\<close> for a one-character filler.\<close>

function padStart :: "nat \<Rightarrow> char \<Rightarrow> string \<Rightarrow> string" where
  "padStart n c s = (if length s < n then padStart n c (c # s) else s)"
  by pat_completeness auto
termination
  by (relation "measure (\<lambda>(n, c, s). n - length s)") auto

declare padStart.simps [simp del]

text \<open>\<^verbatim>\<open>s.replace(/0+$/, '')\<close>\<close>

definition stripTrailingZeros :: "string \<Rightarrow> string" where
  "stripTrailingZeros s = rev (dropWhile (\<lambda>c. c = CHR ''0'') (rev s))"

text \<open>\<^verbatim>\<open>s.split(sep)\<close> for a one-character separator: never the empty list.\<close>

fun splitOn :: "char \<Rightarrow> string \<Rightarrow> string list" where
  "splitOn sep [] = [[]]"
| "splitOn sep (c # cs) =
     (if c = sep then [] # splitOn sep cs
      else (case splitOn sep cs of [] \<Rightarrow> [[c]] | p # ps \<Rightarrow> (c # p) # ps))"

subsection \<open>Digits, \<^verbatim>\<open>toString(radix)\<close> and \<^verbatim>\<open>BigInt(string)\<close>\<close>

text \<open>The digit characters of \<^verbatim>\<open>toString(radix)\<close>, for a digit below 36.\<close>

definition digitChar :: "nat \<Rightarrow> char" where
  "digitChar d = ''0123456789abcdefghijklmnopqrstuvwxyz'' ! d"

definition digitValue :: "char \<Rightarrow> int option" where
  "digitValue c =
     (let n = (of_char c :: int) in
      if 48 \<le> n \<and> n \<le> 57 then Some (n - 48)
      else if 97 \<le> n \<and> n \<le> 102 then Some (n - 87)
      else if 65 \<le> n \<and> n \<le> 70 then Some (n - 55)
      else None)"

text \<open>The digits of a non-negative integer \<open>n\<close> in radix \<open>r\<close>, most significant first.\<close>

function natToString :: "int \<Rightarrow> int \<Rightarrow> string" where
  "natToString r n =
     (if n < r \<or> r < 2 then [digitChar (nat n)]
      else natToString r (n div r) @ [digitChar (nat (n mod r))])"
  by pat_completeness auto
termination
proof (relation "measure (\<lambda>(r, n). nat n)")
  fix r n :: int
  assume "\<not> (n < r \<or> r < 2)"
  then have "2 \<le> r" and "r \<le> n" by simp_all
  then have "n div r < n" by (intro int_div_less_self) simp_all
  with \<open>2 \<le> r\<close> \<open>r \<le> n\<close> show "((r, n div r), (r, n)) \<in> measure (\<lambda>(r, n). nat n)"
    by simp
qed simp

declare natToString.simps [simp del]

text \<open>\<^verbatim>\<open>b.toString()\<close> and \<^verbatim>\<open>b.toString(16)\<close> of a BigInt or of an integral number.\<close>

definition intToString :: "int \<Rightarrow> int \<Rightarrow> string" where
  "intToString r i = (if i < 0 then CHR ''-'' # natToString r (- i) else natToString r i)"

definition toString :: "int \<Rightarrow> string" where
  "toString i = intToString 10 i"

fun parseDigits :: "int \<Rightarrow> string \<Rightarrow> int \<Rightarrow> int option" where
  "parseDigits r [] acc = Some acc"
| "parseDigits r (c # cs) acc =
     (case digitValue c of
        None \<Rightarrow> None
      | Some d \<Rightarrow> if d < r then parseDigits r cs (acc * r + d) else None)"

definition parseNumeral :: "int \<Rightarrow> string \<Rightarrow> int option" where
  "parseNumeral r s = (if s = [] then None else parseDigits r s 0)"

text \<open>
  The StringToBigInt grammar of ECMAScript: surrounding white space is ignored, the empty
  string is 0, a decimal literal may carry a sign, and the prefixes 0x, 0o and 0b (either
  case, no sign) select another radix.
\<close>

definition StringToBigInt :: "string \<Rightarrow> int option" where
  "StringToBigInt s =
     (case trimString s of
        [] \<Rightarrow> Some 0
      | c # cs \<Rightarrow>
          if c = CHR ''+'' then (parseNumeral 10 cs)
          else if c = CHR ''-'' then map_option uminus (parseNumeral 10 cs)
          else
            (case cs of
               [] \<Rightarrow> (parseNumeral 10 [c])
             | x # ds \<Rightarrow>
                 if c = CHR ''0'' \<and> (x = CHR ''x'' \<or> x = CHR ''X'')
                   then (parseNumeral 16 ds)
                 else if c = CHR ''0'' \<and> (x = CHR ''o'' \<or> x = CHR ''O'')
                   then (parseNumeral 8 ds)
                 else if c = CHR ''0'' \<and> (x = CHR ''b'' \<or> x = CHR ''B'')
                   then (parseNumeral 2 ds)
                 else (parseNumeral 10 (c # cs))))"

definition BigInt :: "string \<Rightarrow> error + int" where
  "BigInt s = (case StringToBigInt s of None \<Rightarrow> Inl SyntaxError | Some i \<Rightarrow> Inr i)"

text \<open>BigInt division truncates towards zero; the remainder takes the sign of the dividend.\<close>

definition bigint_div :: "int \<Rightarrow> int \<Rightarrow> int" where
  "bigint_div a b = sgn a * sgn b * (\<bar>a\<bar> div \<bar>b\<bar>)"

definition bigint_rem :: "int \<Rightarrow> int \<Rightarrow> int" where
  "bigint_rem a b = sgn a * (\<bar>a\<bar> mod \<bar>b\<bar>)"

section \<open>Unit converter (\<^verbatim>\<open>utils/unitConverter.ts\<close>)\<close>

text \<open>
  The tables of the source are object literals, so a lookup by key also finds the
  properties inherited from \<^verbatim>\<open>Object.prototype\<close>; they are truthy and are neither
  BigInts nor configurations. \<^verbatim>\<open>UNIT_MULTIPLIERS\<close> is read at a lower-cased key, which
  only two of these names can equal.
\<close>

definition inheritedProperty :: "string \<Rightarrow> bool" where
  "inheritedProperty k \<longleftrightarrow>
     k \<in> set [''constructor'', ''__proto__'', ''toString'', ''valueOf'', ''toLocaleString'',
              ''hasOwnProperty'', ''isPrototypeOf'', ''propertyIsEnumerable'',
              ''__defineGetter__'', ''__defineSetter__'', ''__lookupGetter__'',
              ''__lookupSetter__'']"

datatype unit_entry = Multiplier int | Inherited

definition UNIT_MULTIPLIERS :: "string \<Rightarrow> unit_entry option" where
  "UNIT_MULTIPLIERS u =
     (if u = ''wei'' then Some (Multiplier 1)
      else if u = ''kwei'' then Some (Multiplier 1000)
      else if u = ''mwei'' then Some (Multiplier 1000000)
      else if u = ''gwei'' then Some (Multiplier 1000000000)
      else if u = ''microvet'' then Some (Multiplier 1000000000000)
      else if u = ''millivet'' then Some (Multiplier 1000000000000000)
      else if u = ''vet'' then Some (Multiplier 1000000000000000000)
      else if u = ''vtho'' then Some (Multiplier 1000000000000000000)
      else if u = ''ether'' then Some (Multiplier 1000000000000000000)
      else if inheritedProperty u then Some Inherited
      else None)"

text \<open>
  \<^verbatim>\<open>10 ** d\<close> is a double. It is the exact power of ten while that is representable
  (\<open>d \<le> 22\<close>); beyond that its value is the platform's approximation \<open>fp d\<close>, a
  parameter of the model (\<^verbatim>\<open>Infinity\<close> from \<open>d = 309\<close> on).
\<close>

definition number_pow10 :: "(nat \<Rightarrow> js_number) \<Rightarrow> nat \<Rightarrow> js_number" where
  "number_pow10 fp d = (if d \<le> 22 then integerNumber (10 ^ d) else fp d)"

definition bigint_times :: "int \<Rightarrow> unit_entry \<Rightarrow> error + int" where
  "bigint_times a m = (case m of Multiplier k \<Rightarrow> Inr (a * k) | Inherited \<Rightarrow> Inl TypeError)"

text \<open>
  The argument \<open>v\<close> is the \<^verbatim>\<open>value\<close> parameter when it is a string, which is what
  every caller in the modelled code passes. The destructuring
  \<^verbatim>\<open>[whole, decimal] = value.split('.')\<close> keeps the first two parts; it always finds two
  when the string contains a point (lemma \<open>splitOn_point\<close>), and reading the length of a
  missing second part would be a TypeError.
\<close>

definition convertUnits ::
  "(nat \<Rightarrow> js_number) \<Rightarrow> string \<Rightarrow> string \<Rightarrow> string \<Rightarrow> error + string" where
  "convertUnits fp v fromUnit toUnit =
     (let normalizedFrom = toLowerCase fromUnit;
          normalizedTo = toLowerCase toUnit
      in case UNIT_MULTIPLIERS normalizedFrom of
           None \<Rightarrow> Inl (UnknownUnit fromUnit)
         | Some fromMultiplier \<Rightarrow>
        (case UNIT_MULTIPLIERS normalizedTo of
           None \<Rightarrow> Inl (UnknownUnit toUnit)
         | Some toMultiplier \<Rightarrow>
             bind_err
               (if CHR ''.'' \<in> set v then
                  (case splitOn CHR ''.'' v of
                     whole # decimal # rest \<Rightarrow>
                       (let decimals = length decimal;
                            combined = whole @ decimal
                        in bind_err (BigInt combined) (\<lambda>c.
                           bind_err (bigint_times c fromMultiplier) (\<lambda>scaled.
                           bind_err (BigInt_number (number_pow10 fp decimals)) (\<lambda>p.
                             Inr (bigint_div scaled p)))))
                   | _ \<Rightarrow> Inl TypeError)
                else bind_err (BigInt v) (\<lambda>b. bigint_times b fromMultiplier))
               (\<lambda>valueInWei.
                  case toMultiplier of
                    Inherited \<Rightarrow> Inl TypeError
                  | Multiplier tm \<Rightarrow>
                      (let result = bigint_div valueInWei tm;
                           remainder = bigint_rem valueInWei tm
                       in if remainder = 0 then Inr (toString result)
                          else
                            (let decimalPlaces = 18;
                                 multiplier = 10 ^ decimalPlaces;
                                 decimalPart = bigint_div (remainder * multiplier) tm;
                                 decimalStr =
                                   stripTrailingZeros
                                     (padStart decimalPlaces CHR ''0'' (toString decimalPart))
                             in if decimalStr = [] then Inr (toString result)
                                else Inr (toString result @ ''.'' @ decimalStr))))))"

definition weiToVet :: "(nat \<Rightarrow> js_number) \<Rightarrow> string \<Rightarrow> error + string" where
  "weiToVet fp wei = convertUnits fp wei ''wei'' ''vet''"

definition vetToWei :: "(nat \<Rightarrow> js_number) \<Rightarrow> string \<Rightarrow> error + string" where
  "vetToWei fp vet = convertUnits fp vet ''vet'' ''wei''"

definition weiToVtho :: "(nat \<Rightarrow> js_number) \<Rightarrow> string \<Rightarrow> error + string" where
  "weiToVtho fp wei = convertUnits fp wei ''wei'' ''vtho''"

definition vthoToWei :: "(nat \<Rightarrow> js_number) \<Rightarrow> string \<Rightarrow> error + string" where
  "vthoToWei fp vtho = convertUnits fp vtho ''vtho'' ''wei''"


section \<open>Doubles, bytes and JSON values\<close>

text \<open>
  Rounding of the exact value \<open>m * 2 ^ e\<close> to the nearest double (53 significant bits,
  ties to even). The exponent range is not modelled: no value computed here overflows or
  is subnormal.
\<close>

function bits :: "int \<Rightarrow> nat" where
  "bits n = (if n \<le> 0 then 0 else Suc (bits (n div 2)))"
  by pat_completeness auto
termination
  by (relation "measure nat") auto

declare bits.simps [simp del]

definition roundDouble :: "int \<Rightarrow> int \<Rightarrow> js_number" where
  "roundDouble m e =
     (let a = \<bar>m\<bar>; s = bits a - 53
      in if bits a \<le> 53 then Finite m e
         else
           (let q = a div 2 ^ s; r = a mod 2 ^ s; half = 2 ^ (s - 1);
                q' = (if half < r \<or> (r = half \<and> odd q) then q + 1 else q)
            in Finite (sgn m * q') (e + int s)))"

definition Math_floor :: "js_number \<Rightarrow> js_number" where
  "Math_floor x =
     (case x of
        Finite m e \<Rightarrow> (if 0 \<le> e then Finite m e else Finite (m div 2 ^ nat (- e)) 0)
      | _ \<Rightarrow> x)"

definition Math_ceil :: "js_number \<Rightarrow> js_number" where
  "Math_ceil x =
     (case x of
        Finite m e \<Rightarrow> (if 0 \<le> e then Finite m e else Finite (- ((- m) div 2 ^ nat (- e))) 0)
      | _ \<Rightarrow> x)"

text \<open>
  The product of two finite doubles is the exact product, rounded. No caller multiplies
  a number that is not finite; the model answers \<^verbatim>\<open>NaN\<close> there.
\<close>

definition number_times :: "js_number \<Rightarrow> js_number \<Rightarrow> js_number" where
  "number_times x y =
     (case (x, y) of
        (Finite m1 e1, Finite m2 e2) \<Rightarrow> roundDouble (m1 * m2) (e1 + e2)
      | _ \<Rightarrow> NaN)"

text \<open>
  The sum of two finite doubles is the exact sum, rounded. No caller adds a number that is
  not finite; the model answers \<^verbatim>\<open>NaN\<close> there.
\<close>

definition number_plus :: "js_number \<Rightarrow> js_number \<Rightarrow> js_number" where
  "number_plus x y =
     (case (x, y) of
        (Finite m1 e1, Finite m2 e2) \<Rightarrow>
          (let e = min e1 e2
           in roundDouble (m1 * 2 ^ nat (e1 - e) + m2 * 2 ^ nat (e2 - e)) e)
      | _ \<Rightarrow> NaN)"

text \<open>The double nearest to 1.2, the literal \<^verbatim>\<open>1.2\<close> of the source.\<close>

definition double_1_2 :: js_number where
  "double_1_2 = Finite 5404319552844595 (- 52)"

text \<open>The integer value of a number that is one (0 for the others, which no caller passes).\<close>

definition integerValue :: "js_number \<Rightarrow> int" where
  "integerValue x = (case BigInt_number x of Inl e \<Rightarrow> 0 | Inr n \<Rightarrow> n)"

text \<open>\<^verbatim>\<open>Number(b)\<close> for a BigInt \<open>b\<close>; also the number that \<^verbatim>\<open>JSON.parse\<close> reads
  from the integer literal \<open>b\<close>.\<close>

definition Number_bigint :: "int \<Rightarrow> js_number" where
  "Number_bigint b = roundDouble b 0"

type_synonym byte = "8 word"

definition hexByte :: "byte \<Rightarrow> string" where
  "hexByte b = [digitChar (unat b div 16), digitChar (unat b mod 16)]"

text \<open>\<^verbatim>\<open>ethers.hexlify(bytes)\<close>\<close>

definition hexlify :: "byte list \<Rightarrow> string" where
  "hexlify bs = ''0x'' @ concat (map hexByte bs)"

fun hexPairs :: "string \<Rightarrow> byte list option" where
  "hexPairs [] = Some []"
| "hexPairs [c] = None"
| "hexPairs (a # b # cs) =
     (case (digitValue a, digitValue b, hexPairs cs) of
        (Some h, Some l, Some bs) \<Rightarrow> Some (of_int (h * 16 + l) # bs)
      | _ \<Rightarrow> None)"

text \<open>\<^verbatim>\<open>ethers.getBytes(s)\<close> for a string: it must match
  \<^verbatim>\<open>/^0x(?:[0-9a-f][0-9a-f])*$/i\<close>, so the prefix and the digits may be in either case.\<close>

definition getBytes :: "string \<Rightarrow> error + byte list" where
  "getBytes s =
     (if toLowerCase (take 2 s) = ''0x'' then
        (case hexPairs (drop 2 s) of
           None \<Rightarrow> Inl (ExternalError ''invalid BytesLike value'')
         | Some bs \<Rightarrow> Inr bs)
      else Inl (ExternalError ''invalid BytesLike value''))"

function natToBytes :: "int \<Rightarrow> byte list" where
  "natToBytes n = (if n < 256 then [of_int n] else natToBytes (n div 256) @ [of_int (n mod 256)])"
  by pat_completeness auto
termination
  by (relation "measure nat") auto

declare natToBytes.simps [simp del]

text \<open>\<^verbatim>\<open>ethers.toBeHex(n)\<close>, as bytes: it rejects a negative value.\<close>

definition toBeHex :: "int \<Rightarrow> error + byte list" where
  "toBeHex n = (if n < 0 then Inl (ExternalError ''unsigned value cannot be negative'')
                else Inr (natToBytes n))"

datatype json =
    JUndefined | JNull | JBool bool | JNumber js_number | JString string
  | JArray "json list" | JObject "(string \<times> json) list"

definition JInt :: "int \<Rightarrow> json" where
  "JInt n = JNumber (integerNumber n)"

section \<open>Clause builder (\<^verbatim>\<open>utils/clauseBuilder.ts\<close>)\<close>

record clause =
  clause_to :: "string option"   \<comment> \<open>\<open>None\<close> is \<^verbatim>\<open>null\<close>: contract creation\<close>
  clause_value :: string
  clause_data :: string

record clause_with_meta = clause +
  clause_comment :: "string option"
  clause_gasEstimate :: "int option"

definition isDecimalDigit :: "char \<Rightarrow> bool" where
  "isDecimalDigit c \<longleftrightarrow> 48 \<le> (of_char c :: nat) \<and> (of_char c :: nat) \<le> 57"

definition isHexDigit :: "char \<Rightarrow> bool" where
  "isHexDigit c = (case digitValue c of None \<Rightarrow> False | Some d \<Rightarrow> True)"

text \<open>\<^verbatim>\<open>/^0x[a-fA-F0-9]{40}$/.test(address)\<close>\<close>

definition isValidAddress :: "string \<Rightarrow> bool" where
  "isValidAddress address \<longleftrightarrow>
     length address = 42 \<and> take 2 address = ''0x'' \<and> list_all isHexDigit (drop 2 address)"

record validation =
  valid :: bool
  errors :: "string list"

text \<open>The body of the \<^verbatim>\<open>for\<close> loop of \<^verbatim>\<open>validate\<close> for the clause at index \<open>i\<close>:
  each failed check pushes one message.\<close>

definition validateClause :: "nat \<Rightarrow> clause_with_meta \<Rightarrow> string list \<Rightarrow> string list" where
  "validateClause i c errs =
     (let errs1 =
            (case clause_to c of
               None \<Rightarrow> errs
             | Some a \<Rightarrow>
                 if \<not> isValidAddress a
                 then errs @ [''Clause '' @ toString (int i) @ '': Invalid 'to' address'']
                 else errs);
          errs2 =
            (case BigInt (clause_value c) of
               Inl e \<Rightarrow> errs1 @ [''Clause '' @ toString (int i) @ '': Invalid 'value'' @ [CHR 0x27]]
             | Inr b \<Rightarrow> errs1);
          errs3 =
            (if \<not> startsWith (clause_data c) ''0x''
             then errs2 @ [''Clause '' @ toString (int i) @ '': Data must start with 0x'']
             else errs2)
      in errs3)"

function validate_loop :: "clause_with_meta list \<Rightarrow> nat \<Rightarrow> string list \<Rightarrow> string list" where
  "validate_loop clauses i errs =
     (if i < length clauses
      then validate_loop clauses (i + 1) (validateClause i (clauses ! i) errs)
      else errs)"
  by pat_completeness auto
termination
  by (relation "measure (\<lambda>(clauses, i, errs). length clauses - i)") auto

declare validate_loop.simps [simp del]

definition validate :: "clause_with_meta list \<Rightarrow> validation" where
  "validate clauses =
     (let errs0 = (if length clauses = 0 then [''No clauses added''] else []);
          errs = validate_loop clauses 0 errs0
      in \<lparr>valid = (length errs = 0), errors = errs\<rparr>)"

text \<open>What one clause must satisfy for \<^verbatim>\<open>validate\<close> to push nothing for it.\<close>

definition clauseAccepted :: "clause_with_meta \<Rightarrow> bool" where
  "clauseAccepted c \<longleftrightarrow>
     (case clause_to c of None \<Rightarrow> True | Some a \<Rightarrow> isValidAddress a)
     \<and> (case StringToBigInt (clause_value c) of None \<Rightarrow> False | Some b \<Rightarrow> True)
     \<and> startsWith (clause_data c) ''0x''"

section \<open>Nonces\<close>

text \<open>
  \<^verbatim>\<open>ethers.randomBytes(n)\<close> reads the platform's cryptographic generator, a stream
  \<open>rng\<close> of bytes here.
\<close>

definition randomBytes :: "(nat \<Rightarrow> byte) \<Rightarrow> nat \<Rightarrow> byte list" where
  "randomBytes rng n = map rng [0..<n]"

text \<open>\<^verbatim>\<open>ThorClient.generateNonce\<close> (\<^verbatim>\<open>transport/thorClient.ts\<close>)\<close>

definition ThorClient_generateNonce :: "(nat \<Rightarrow> byte) \<Rightarrow> string" where
  "ThorClient_generateNonce rng = ''0x'' @ drop 2 (hexlify (randomBytes rng 8))"

text \<open>
  \<^verbatim>\<open>generateNonce\<close> of \<^verbatim>\<open>actions/vet/vet.operations.ts\<close> (the same function is
  repeated in the vtho, vip180, vip181 and contract operations). Its argument is the
  double that \<^verbatim>\<open>Math.random()\<close> returned.
\<close>

definition generateNonce :: "js_number \<Rightarrow> string" where
  "generateNonce random =
     ''0x'' @ padStart 8 CHR ''0''
       (intToString 16
          (integerValue (Math_floor (number_times random (integerNumber 0xffffffff)))))"


section \<open>Thor client (\<^verbatim>\<open>constants/networks.ts\<close>, \<^verbatim>\<open>transport/thorClient.ts\<close>)\<close>

record network_config =
  config_chainTag :: int
  config_nodeUrl :: string   \<comment> \<open>\<^verbatim>\<open>nodeUrls[0]\<close>\<close>

definition NETWORKS :: "string \<Rightarrow> network_config option" where
  "NETWORKS network =
     (if network = ''mainnet''
        then Some \<lparr>config_chainTag = 0x4a, config_nodeUrl = ''https://mainnet.veblocks.net''\<rparr>
      else if network = ''testnet''
        then Some \<lparr>config_chainTag = 0x27, config_nodeUrl = ''https://testnet.veblocks.net''\<rparr>
      else if network = ''solo''
        then Some \<lparr>config_chainTag = 0xf6, config_nodeUrl = ''http://localhost:8669''\<rparr>
      else None)"

text \<open>For an inherited property the configuration is truthy, its \<^verbatim>\<open>chainTag\<close> is
  \<^verbatim>\<open>undefined\<close> (\<open>None\<close> here) and reading \<^verbatim>\<open>nodeUrls[0]\<close> is a TypeError.\<close>

definition getNodeUrl :: "string \<Rightarrow> string \<Rightarrow> error + string" where
  "getNodeUrl network customUrl =
     (if network = ''custom'' \<and> customUrl \<noteq> [] then Inr customUrl
      else
        (case NETWORKS network of
           Some config \<Rightarrow> Inr (config_nodeUrl config)
         | None \<Rightarrow> if inheritedProperty network then Inl TypeError
                   else Inl (UnknownNetwork network)))"

definition getChainTag :: "string \<Rightarrow> error + int option" where
  "getChainTag network =
     (case NETWORKS network of
        Some config \<Rightarrow> Inr (Some (config_chainTag config))
      | None \<Rightarrow> if inheritedProperty network then Inr None
                else Inl (UnknownNetwork network))"

record thor_client =
  client_network :: string
  client_chainTag :: "int option"
  client_baseURL :: string

definition createThorClient :: "string \<Rightarrow> string \<Rightarrow> error + thor_client" where
  "createThorClient network customUrl =
     bind_err (if network = ''custom'' then Inr (Some 0) else getChainTag network) (\<lambda>chainTag.
     bind_err (getNodeUrl network customUrl) (\<lambda>baseURL.
       Inr \<lparr>client_network = network, client_chainTag = chainTag, client_baseURL = baseURL\<rparr>))"

text \<open>The fields of the node's answers that the modelled code reads.\<close>

record block_info =
  block_number :: int
  block_id :: string
  block_timestamp :: int
  block_gasLimit :: int
  block_gasUsed :: int
  block_transactions :: "string list"
  block_signer :: string
  block_beneficiary :: string
  block_isTrunk :: bool

record log_meta =
  meta_blockID :: string
  meta_blockNumber :: int
  meta_blockTimestamp :: int
  meta_txID :: string
  meta_txOrigin :: string
  meta_clauseIndex :: int

record transfer_log =
  transfer_sender :: string
  transfer_recipient :: string
  transfer_amount :: string
  transfer_meta :: "log_meta option"

record event_log =
  event_address :: string
  event_topics :: "string list"
  event_data :: string
  event_meta :: "log_meta option"

record event_filter =
  filter_address :: "string option"
  filter_topic0 :: "string option"

record call_result =
  call_gasUsed :: int
  call_reverted :: bool
  call_vmError :: string

text \<open>
  The node behind the client's base URL: what each HTTP request answers (\<open>Inl\<close> when
  axios throws). \<^verbatim>\<open>getBlock\<close> answers \<^verbatim>\<open>null\<close> (\<open>None\<close>) for a revision the node
  does not have.
\<close>

record thor_node =
  node_getBlock :: "string \<Rightarrow> error + block_info option"        \<comment> \<open>GET /blocks/{revision}\<close>
  node_logsTransfer :: "int \<Rightarrow> int \<Rightarrow> error + transfer_log list"  \<comment> \<open>POST /logs/transfer, block range\<close>
  node_logsEvent :: "int \<Rightarrow> int \<Rightarrow> event_filter \<Rightarrow> error + event_log list"  \<comment> \<open>POST /logs/event\<close>
  node_postAccounts :: "clause list \<Rightarrow> error + call_result list"  \<comment> \<open>POST /accounts/*\<close>
  node_postTransactions :: "string \<Rightarrow> error + string"            \<comment> \<open>POST /transactions, the id\<close>

section \<open>Effects\<close>

text \<open>
  A run of an operation yields its result, or the error it threw, and the list of its
  effects in the order they happened: the requests it sent, the writes to the persisted
  workflow data, and the transaction bodies whose signing hash it computed.
\<close>

record tx_body =
  tx_chainTag :: "int option"
  tx_blockRef :: string
  tx_expiration :: int
  tx_clauses :: "clause list"
  tx_gasPriceCoef :: int
  tx_gas :: int
  tx_dependsOn :: "string option"
  tx_nonce :: string
  tx_reserved :: "int option"   \<comment> \<open>\<^verbatim>\<open>reserved.features\<close>; \<open>None\<close> when \<^verbatim>\<open>reserved\<close> is absent\<close>

datatype effect =
    HttpGetBlock string                   \<comment> \<open>\<^verbatim>\<open>client.getBlock(revision)\<close>\<close>
  | HttpLogsTransfer int int              \<comment> \<open>\<^verbatim>\<open>client.getTransfers({range})\<close>\<close>
  | HttpLogsEvent int int event_filter    \<comment> \<open>\<^verbatim>\<open>client.getEvents({range, criteriaSet})\<close>\<close>
  | HttpPostAccounts "clause list"        \<comment> \<open>\<^verbatim>\<open>client.estimateGas(clauses)\<close>\<close>
  | HttpPostDelegate string string string \<comment> \<open>\<^verbatim>\<open>POST {delegatorUrl}/delegate {raw, origin}\<close>\<close>
  | HttpPostTransactions string           \<comment> \<open>\<^verbatim>\<open>client.sendTransaction(raw)\<close>: the submission\<close>
  | WriteLastBlockNumber int              \<comment> \<open>\<^verbatim>\<open>workflowStaticData.lastBlockNumber = n\<close>\<close>
  | SigningHash tx_body                   \<comment> \<open>\<^verbatim>\<open>new Transaction(txBody).signingHash()\<close>\<close>

type_synonym 'a run = "(error + 'a) \<times> effect list"

definition ret :: "'a \<Rightarrow> 'a run" where
  "ret v = (Inr v, [])"

definition throw :: "error \<Rightarrow> 'a run" where
  "throw e = (Inl e, [])"

definition silent :: "error + 'a \<Rightarrow> 'a run" where
  "silent r = (r, [])"

definition perform :: "effect \<Rightarrow> error + 'a \<Rightarrow> 'a run" where
  "perform eff r = (r, [eff])"

definition bind_run :: "'a run \<Rightarrow> ('a \<Rightarrow> 'b run) \<Rightarrow> 'b run" where
  "bind_run m f =
     (case m of
        (Inl e, t) \<Rightarrow> (Inl e, t)
      | (Inr v, t) \<Rightarrow> (case f v of (r, t') \<Rightarrow> (r, t @ t')))"

text \<open>A \<^verbatim>\<open>for (const x of xs)\<close> loop whose body either throws, skips the element
  (\<^verbatim>\<open>continue\<close>) or pushes one item onto \<^verbatim>\<open>returnData\<close>.\<close>

fun pushEach :: "('a \<Rightarrow> error + json option) \<Rightarrow> 'a list \<Rightarrow> json list \<Rightarrow> error + json list" where
  "pushEach body [] returnData = Inr returnData"
| "pushEach body (x # xs) returnData =
     (case body x of
        Inl e \<Rightarrow> Inl e
      | Inr None \<Rightarrow> pushEach body xs returnData
      | Inr (Some item) \<Rightarrow> pushEach body xs (returnData @ [item]))"

section \<open>Polling trigger (\<^verbatim>\<open>VechainTrigger.node.ts\<close>)\<close>

record trigger_parameters =
  param_triggerOn :: string
  param_address :: string
  param_tokenContract :: string
  param_nftContract :: string
  param_contractAddress :: string
  param_eventSignature :: string
  param_threshold :: js_number
  param_monitorAddress :: string

text \<open>What the trigger uses besides its parameters: the node, \<^verbatim>\<open>keccak256\<close> of the
  UTF-8 bytes of a string (ethers), and the floating point of the platform.\<close>

record trigger_env =
  env_node :: thor_node
  env_keccak256 :: "string \<Rightarrow> string"
  env_fp :: "nat \<Rightarrow> js_number"

definition VTHO_CONTRACT_ADDRESS :: string where
  "VTHO_CONTRACT_ADDRESS = ''0x0000000000000000000000000000456e65726779''"

definition transferTopic :: string where
  "transferTopic = ''0xddf252ad1be2c89b69c2b068fc378daa952ba7f163c4a11628f55a4df523b3ef''"

text \<open>\<^verbatim>\<open>x.meta?.field\<close>\<close>

definition metaField :: "log_meta option \<Rightarrow> (log_meta \<Rightarrow> json) \<Rightarrow> json" where
  "metaField m f = (case m of None \<Rightarrow> JUndefined | Some meta \<Rightarrow> f meta)"

definition newBlockItem :: "block_info \<Rightarrow> json" where
  "newBlockItem block =
     JObject [(''blockNumber'', JInt (block_number block)),
              (''blockId'', JString (block_id block)),
              (''timestamp'', JInt (block_timestamp block)),
              (''gasLimit'', JInt (block_gasLimit block)),
              (''gasUsed'', JInt (block_gasUsed block)),
              (''txCount'', JInt (int (length (block_transactions block)))),
              (''signer'', JString (block_signer block)),
              (''beneficiary'', JString (block_beneficiary block)),
              (''isTrunk'', JBool (block_isTrunk block))]"

definition finalizedItem :: "block_info \<Rightarrow> block_info \<Rightarrow> json" where
  "finalizedItem bestBlock block =
     JObject [(''blockNumber'', JInt (block_number block)),
              (''blockId'', JString (block_id block)),
              (''timestamp'', JInt (block_timestamp block)),
              (''finalized'', JBool True),
              (''confirmations'', JInt (block_number bestBlock - block_number block))]"

text \<open>The body of the loop of \<^verbatim>\<open>processVetTransfers\<close>.\<close>

definition vetTransferItem ::
  "(nat \<Rightarrow> js_number) \<Rightarrow> string \<Rightarrow> string \<Rightarrow> transfer_log \<Rightarrow> error + json option" where
  "vetTransferItem fp triggerOn addressLower transfer =
     (let isReceived = (toLowerCase (transfer_recipient transfer) = addressLower);
          isSent = (toLowerCase (transfer_sender transfer) = addressLower)
      in if (triggerOn = ''vetReceived'' \<and> isReceived) \<or> (triggerOn = ''vetSent'' \<and> isSent)
         then
           bind_err (weiToVet fp (transfer_amount transfer)) (\<lambda>formatted.
             Inr (Some (JObject
               [(''type'', JString (if isReceived then ''received'' else ''sent'')),
                (''from'', JString (transfer_sender transfer)),
                (''to'', JString (transfer_recipient transfer)),
                (''amount'', JString (transfer_amount transfer)),
                (''amountFormatted'', JString (formatted @ '' VET'')),
                (''txId'', metaField (transfer_meta transfer) (\<lambda>m. JString (meta_txID m))),
                (''blockNumber'', metaField (transfer_meta transfer) (\<lambda>m. JInt (meta_blockNumber m))),
                (''timestamp'',
                   metaField (transfer_meta transfer) (\<lambda>m. JInt (meta_blockTimestamp m)))])))
         else Inr None)"

definition processVetTransfers ::
  "trigger_env \<Rightarrow> block_info \<Rightarrow> string \<Rightarrow> trigger_parameters \<Rightarrow> json list \<Rightarrow> json list run" where
  "processVetTransfers env block triggerOn params returnData =
     (let address = param_address params;
          addressLower = toLowerCase address
      in bind_run
           (perform (HttpLogsTransfer (block_number block) (block_number block))
              (node_logsTransfer (env_node env) (block_number block) (block_number block)))
           (\<lambda>transfers.
              silent (pushEach (vetTransferItem (env_fp env) triggerOn addressLower)
                        transfers returnData)))"

text \<open>\<^verbatim>\<open>'0x' + topic.slice(26)\<close>\<close>

definition topicAddress :: "string \<Rightarrow> string" where
  "topicAddress topic = ''0x'' @ drop 26 topic"

definition vthoEventItem ::
  "(nat \<Rightarrow> js_number) \<Rightarrow> string \<Rightarrow> string \<Rightarrow> event_log \<Rightarrow> error + json option" where
  "vthoEventItem fp triggerOn addressLower event =
     (if length (event_topics event) < 3 then Inr None
      else
        (let from = topicAddress (event_topics event ! 1);
             to = topicAddress (event_topics event ! 2);
             amount = event_data event;
             isReceived = (toLowerCase to = addressLower);
             isSent = (toLowerCase from = addressLower)
         in if (triggerOn = ''vthoReceived'' \<and> isReceived) \<or> (triggerOn = ''vthoSent'' \<and> isSent)
            then
              bind_err (weiToVtho fp amount) (\<lambda>formatted.
                Inr (Some (JObject
                  [(''type'', JString (if isReceived then ''received'' else ''sent'')),
                   (''from'', JString from),
                   (''to'', JString to),
                   (''amount'', JString amount),
                   (''amountFormatted'', JString (formatted @ '' VTHO'')),
                   (''txId'', metaField (event_meta event) (\<lambda>m. JString (meta_txID m))),
                   (''blockNumber'', metaField (event_meta event) (\<lambda>m. JInt (meta_blockNumber m))),
                   (''timestamp'',
                      metaField (event_meta event) (\<lambda>m. JInt (meta_blockTimestamp m)))])))
            else Inr None))"

definition processVthoTransfers ::
  "trigger_env \<Rightarrow> block_info \<Rightarrow> string \<Rightarrow> trigger_parameters \<Rightarrow> json list \<Rightarrow> json list run" where
  "processVthoTransfers env block triggerOn params returnData =
     (let address = param_address params;
          addressLower = toLowerCase address;
          criteria = \<lparr>filter_address = Some VTHO_CONTRACT_ADDRESS, filter_topic0 = Some transferTopic\<rparr>
      in bind_run
           (perform (HttpLogsEvent (block_number block) (block_number block) criteria)
              (node_logsEvent (env_node env) (block_number block) (block_number block) criteria))
           (\<lambda>events.
              silent (pushEach (vthoEventItem (env_fp env) triggerOn addressLower)
                        events returnData)))"

definition tokenEventItem :: "string \<Rightarrow> event_log \<Rightarrow> error + json option" where
  "tokenEventItem addressLower event =
     (if length (event_topics event) < 3 then Inr None
      else
        (let from = topicAddress (event_topics event ! 1);
             to = topicAddress (event_topics event ! 2);
             isReceived = (toLowerCase to = addressLower);
             isSent = (toLowerCase from = addressLower)
         in if isReceived \<or> isSent
            then
              Inr (Some (JObject
                [(''type'', JString (if isReceived then ''received'' else ''sent'')),
                 (''tokenContract'', JString (event_address event)),
                 (''from'', JString from),
                 (''to'', JString to),
                 (''amount'', JString (event_data event)),
                 (''txId'', metaField (event_meta event) (\<lambda>m. JString (meta_txID m))),
                 (''blockNumber'', metaField (event_meta event) (\<lambda>m. JInt (meta_blockNumber m))),
                 (''timestamp'',
                    metaField (event_meta event) (\<lambda>m. JInt (meta_blockTimestamp m)))]))
            else Inr None))"

text \<open>\<^verbatim>\<open>criteria = {topic0}\<close>, with \<^verbatim>\<open>criteria.address\<close> set when the contract parameter
  is not empty.\<close>

definition transferCriteria :: "string \<Rightarrow> event_filter" where
  "transferCriteria contract =
     \<lparr>filter_address = (if contract \<noteq> [] then Some contract else None),
      filter_topic0 = Some transferTopic\<rparr>"

definition processTokenTransfers ::
  "trigger_env \<Rightarrow> block_info \<Rightarrow> trigger_parameters \<Rightarrow> json list \<Rightarrow> json list run" where
  "processTokenTransfers env block params returnData =
     (let address = param_address params;
          tokenContract = param_tokenContract params;
          addressLower = toLowerCase address;
          criteria = transferCriteria tokenContract
      in bind_run
           (perform (HttpLogsEvent (block_number block) (block_number block) criteria)
              (node_logsEvent (env_node env) (block_number block) (block_number block) criteria))
           (\<lambda>events. silent (pushEach (tokenEventItem addressLower) events returnData)))"

definition nftEventItem :: "string \<Rightarrow> event_log \<Rightarrow> error + json option" where
  "nftEventItem addressLower event =
     (if length (event_topics event) < 4 then Inr None
      else
        (let from = topicAddress (event_topics event ! 1);
             to = topicAddress (event_topics event ! 2)
         in bind_err (BigInt (event_topics event ! 3)) (\<lambda>tokenIdValue.
              (let tokenId = toString tokenIdValue;
                   isReceived = (toLowerCase to = addressLower);
                   isSent = (toLowerCase from = addressLower)
               in if isReceived \<or> isSent
                  then
                    Inr (Some (JObject
                      [(''type'', JString (if isReceived then ''received'' else ''sent'')),
                       (''nftContract'', JString (event_address event)),
                       (''from'', JString from),
                       (''to'', JString to),
                       (''tokenId'', JString tokenId),
                       (''txId'', metaField (event_meta event) (\<lambda>m. JString (meta_txID m))),
                       (''blockNumber'',
                          metaField (event_meta event) (\<lambda>m. JInt (meta_blockNumber m))),
                       (''timestamp'',
                          metaField (event_meta event) (\<lambda>m. JInt (meta_blockTimestamp m)))]))
                  else Inr None))))"

definition processNftTransfers ::
  "trigger_env \<Rightarrow> block_info \<Rightarrow> trigger_parameters \<Rightarrow> json list \<Rightarrow> json list run" where
  "processNftTransfers env block params returnData =
     (let address = param_address params;
          nftContract = param_nftContract params;
          addressLower = toLowerCase address;
          criteria = transferCriteria nftContract
      in bind_run
           (perform (HttpLogsEvent (block_number block) (block_number block) criteria)
              (node_logsEvent (env_node env) (block_number block) (block_number block) criteria))
           (\<lambda>events. silent (pushEach (nftEventItem addressLower) events returnData)))"

definition contractEventItem :: "event_log \<Rightarrow> error + json option" where
  "contractEventItem event =
     Inr (Some (JObject
       [(''address'', JString (event_address event)),
        (''topics'', JArray (map JString (event_topics event))),
        (''data'', JString (event_data event)),
        (''txId'', metaField (event_meta event) (\<lambda>m. JString (meta_txID m))),
        (''blockNumber'', metaField (event_meta event) (\<lambda>m. JInt (meta_blockNumber m))),
        (''timestamp'', metaField (event_meta event) (\<lambda>m. JInt (meta_blockTimestamp m))),
        (''clauseIndex'', metaField (event_meta event) (\<lambda>m. JInt (meta_clauseIndex m)))]))"

definition processContractEvents ::
  "trigger_env \<Rightarrow> block_info \<Rightarrow> trigger_parameters \<Rightarrow> json list \<Rightarrow> json list run" where
  "processContractEvents env block params returnData =
     (let contractAddress = param_contractAddress params;
          eventSignature = param_eventSignature params;
          criteria =
            \<lparr>filter_address = Some contractAddress,
             filter_topic0 =
               (if eventSignature \<noteq> [] then Some (env_keccak256 env eventSignature) else None)\<rparr>
      in bind_run
           (perform (HttpLogsEvent (block_number block) (block_number block) criteria)
              (node_logsEvent (env_node env) (block_number block) (block_number block) criteria))
           (\<lambda>events. silent (pushEach contractEventItem events returnData)))"

text \<open>The body of the loop of \<^verbatim>\<open>processLargeTransactions\<close>.\<close>

definition largeTransactionJson :: "js_number \<Rightarrow> transfer_log \<Rightarrow> int \<Rightarrow> string \<Rightarrow> json" where
  "largeTransactionJson threshold transfer amount formatted =
     JObject
       [(''from'', JString (transfer_sender transfer)),
        (''to'', JString (transfer_recipient transfer)),
        (''amount'', JString (transfer_amount transfer)),
        (''amountFormatted'', JString (formatted @ '' VET'')),
        (''amountVet'', JNumber (Number_bigint (bigint_div amount (10 ^ 18)))),
        (''threshold'', JNumber threshold),
        (''txId'', metaField (transfer_meta transfer) (\<lambda>m. JString (meta_txID m))),
        (''blockNumber'', metaField (transfer_meta transfer) (\<lambda>m. JInt (meta_blockNumber m))),
        (''timestamp'', metaField (transfer_meta transfer) (\<lambda>m. JInt (meta_blockTimestamp m)))]"

text \<open>\<^verbatim>\<open>transfer.amount || '0'\<close>\<close>

definition amountOrZero :: "transfer_log \<Rightarrow> string" where
  "amountOrZero transfer =
     (if transfer_amount transfer \<noteq> [] then transfer_amount transfer else ''0'')"

definition largeTransactionItem ::
  "(nat \<Rightarrow> js_number) \<Rightarrow> js_number \<Rightarrow> int \<Rightarrow> string \<Rightarrow> transfer_log \<Rightarrow> error + json option" where
  "largeTransactionItem fp threshold thresholdWei monitorAddress transfer =
     bind_err (BigInt (amountOrZero transfer))
       (\<lambda>amount.
          if amount < thresholdWei then Inr None
          else if monitorAddress \<noteq> []
                  \<and> toLowerCase (transfer_sender transfer) \<noteq> toLowerCase monitorAddress
                  \<and> toLowerCase (transfer_recipient transfer) \<noteq> toLowerCase monitorAddress
            then Inr None
          else
            bind_err (weiToVet fp (transfer_amount transfer)) (\<lambda>formatted.
              Inr (Some (largeTransactionJson threshold transfer amount formatted))))"

definition processLargeTransactions ::
  "trigger_env \<Rightarrow> block_info \<Rightarrow> trigger_parameters \<Rightarrow> json list \<Rightarrow> json list run" where
  "processLargeTransactions env block params returnData =
     (let threshold = param_threshold params;
          monitorAddress = param_monitorAddress params
      in bind_run (silent (BigInt_number threshold)) (\<lambda>thresholdBig.
           (let thresholdWei = thresholdBig * 10 ^ 18
            in bind_run
                 (perform (HttpLogsTransfer (block_number block) (block_number block))
                    (node_logsTransfer (env_node env) (block_number block) (block_number block)))
                 (\<lambda>transfers.
                    silent (pushEach
                              (largeTransactionItem (env_fp env) threshold thresholdWei monitorAddress)
                              transfers returnData)))))"

text \<open>
  The classification as the specification words it: a transfer qualifies when its amount,
  an integer in base units, is at or above the threshold in base units and, when a monitor
  address is configured, its sender or its recipient is that address, compared without
  regard to case.
\<close>

definition largeTransferQualifies :: "int \<Rightarrow> string \<Rightarrow> transfer_log \<Rightarrow> bool" where
  "largeTransferQualifies thresholdBaseUnits monitorAddress transfer =
     (case BigInt (amountOrZero transfer) of
        Inl e \<Rightarrow> False
      | Inr amount \<Rightarrow>
          thresholdBaseUnits \<le> amount
          \<and> (monitorAddress = []
               \<or> toLowerCase (transfer_sender transfer) = toLowerCase monitorAddress
               \<or> toLowerCase (transfer_recipient transfer) = toLowerCase monitorAddress))"

text \<open>The \<^verbatim>\<open>switch (triggerOn)\<close> of the loop body of \<^verbatim>\<open>poll\<close>, for one block.\<close>

definition processBlock ::
  "trigger_env \<Rightarrow> trigger_parameters \<Rightarrow> block_info \<Rightarrow> int \<Rightarrow> block_info \<Rightarrow> json list
     \<Rightarrow> json list run" where
  "processBlock env params bestBlock blockNum block returnData =
     (let triggerOn = param_triggerOn params
      in if triggerOn = ''newBlock'' then ret (returnData @ [newBlockItem block])
         else if triggerOn = ''blockFinalized'' then
           (if blockNum \<le> block_number bestBlock - 12
            then ret (returnData @ [finalizedItem bestBlock block])
            else ret returnData)
         else if triggerOn = ''vetReceived'' \<or> triggerOn = ''vetSent''
           then processVetTransfers env block triggerOn params returnData
         else if triggerOn = ''vthoReceived'' \<or> triggerOn = ''vthoSent''
           then processVthoTransfers env block triggerOn params returnData
         else if triggerOn = ''tokenTransfer'' then processTokenTransfers env block params returnData
         else if triggerOn = ''nftTransfer'' then processNftTransfers env block params returnData
         else if triggerOn = ''contractEvent'' then processContractEvents env block params returnData
         else if triggerOn = ''largeTransaction''
           then processLargeTransactions env block params returnData
         else ret returnData)"

text \<open>\<^verbatim>\<open>blockNum === bestBlock.number ? bestBlock : await client.getBlock(blockNum.toString())\<close>\<close>

definition fetchBlock :: "trigger_env \<Rightarrow> block_info \<Rightarrow> int \<Rightarrow> block_info option run" where
  "fetchBlock env bestBlock blockNum =
     (if blockNum = block_number bestBlock then ret (Some bestBlock)
      else perform (HttpGetBlock (toString blockNum))
             (node_getBlock (env_node env) (toString blockNum)))"

text \<open>The \<^verbatim>\<open>for\<close> loop of \<^verbatim>\<open>poll\<close>, from \<open>blockNum\<close> on.\<close>

function poll_loop ::
  "trigger_env \<Rightarrow> trigger_parameters \<Rightarrow> block_info \<Rightarrow> int \<Rightarrow> json list \<Rightarrow> json list run" where
  "poll_loop env params bestBlock blockNum returnData =
     (if blockNum \<le> block_number bestBlock then
        (case fetchBlock env bestBlock blockNum of
           (Inl e, t) \<Rightarrow> (Inl e, t)
         | (Inr None, t) \<Rightarrow>
             (case poll_loop env params bestBlock (blockNum + 1) returnData of
                (r, t') \<Rightarrow> (r, t @ t'))
         | (Inr (Some block), t) \<Rightarrow>
             (case processBlock env params bestBlock blockNum block returnData of
                (Inl e, t1) \<Rightarrow> (Inl e, t @ t1)
              | (Inr returnData', t1) \<Rightarrow>
                  (case poll_loop env params bestBlock (blockNum + 1) returnData' of
                     (r, t') \<Rightarrow> (r, t @ t1 @ t'))))
      else (Inr returnData, []))"
  by pat_completeness auto
termination
  by (relation "measure (\<lambda>(env, params, bestBlock, blockNum, returnData).
                  nat (block_number bestBlock + 1 - blockNum))") auto

declare poll_loop.simps [simp del]

record network_credentials =
  cred_network :: string
  cred_nodeUrl :: string
  cred_privateKey :: string
  cred_enableDelegation :: bool             \<comment> \<open>whether the field is truthy\<close>
  cred_delegatorUrl :: "string option"
  cred_delegatorPrivateKey :: "string option"

record workflow_static_data =
  static_lastBlockNumber :: "int option"   \<comment> \<open>\<open>None\<close> is \<^verbatim>\<open>undefined\<close>\<close>

text \<open>The outcome of one poll tick: what \<^verbatim>\<open>poll\<close> returned (\<open>None\<close> is \<^verbatim>\<open>null\<close>) or
  threw, the persisted data afterwards and the effects.\<close>

record poll_outcome =
  poll_result :: "error + json list list option"
  poll_staticData :: workflow_static_data
  poll_effects :: "effect list"

definition poll ::
  "trigger_env \<Rightarrow> network_credentials \<Rightarrow> trigger_parameters \<Rightarrow> workflow_static_data
     \<Rightarrow> poll_outcome" where
  "poll env credentials params workflowStaticData =
     (case createThorClient (cred_network credentials) (cred_nodeUrl credentials) of
        Inl e \<Rightarrow>
          \<lparr>poll_result = Inl e, poll_staticData = workflowStaticData, poll_effects = []\<rparr>
      | Inr client \<Rightarrow>
          (case node_getBlock (env_node env) ''best'' of
             Inl e \<Rightarrow>
               \<lparr>poll_result = Inl e, poll_staticData = workflowStaticData,
                poll_effects = [HttpGetBlock ''best'']\<rparr>
           | Inr None \<Rightarrow>
               \<lparr>poll_result = Inr None, poll_staticData = workflowStaticData,
                poll_effects = [HttpGetBlock ''best'']\<rparr>
           | Inr (Some bestBlock) \<Rightarrow>
               (case static_lastBlockNumber workflowStaticData of
                  None \<Rightarrow>
                    \<lparr>poll_result = Inr None,
                     poll_staticData =
                       workflowStaticData\<lparr>static_lastBlockNumber := Some (block_number bestBlock)\<rparr>,
                     poll_effects =
                       [HttpGetBlock ''best'', WriteLastBlockNumber (block_number bestBlock)]\<rparr>
                | Some lastBlockNumber \<Rightarrow>
                    if block_number bestBlock \<le> lastBlockNumber then
                      \<lparr>poll_result = Inr None, poll_staticData = workflowStaticData,
                       poll_effects = [HttpGetBlock ''best'']\<rparr>
                    else
                      (case poll_loop env params bestBlock (lastBlockNumber + 1) [] of
                         (Inl e, t) \<Rightarrow>
                           \<lparr>poll_result = Inl e, poll_staticData = workflowStaticData,
                            poll_effects = HttpGetBlock ''best'' # t\<rparr>
                       | (Inr returnData, t) \<Rightarrow>
                           \<lparr>poll_result =
                              Inr (if length returnData = 0 then None else Some [returnData]),
                            poll_staticData =
                              workflowStaticData\<lparr>static_lastBlockNumber := Some (block_number bestBlock)\<rparr>,
                            poll_effects =
                              HttpGetBlock ''best'' # t
                                @ [WriteLastBlockNumber (block_number bestBlock)]\<rparr>))))"

section \<open>Fee delegation service (\<^verbatim>\<open>transport/delegationService.ts\<close>)\<close>

record delegation_response =
  resp_signature :: string
  resp_error :: "string option"

text \<open>
  What the HTTP request to the delegator does: it answers with a body, it answers with an
  error status (axios throws an error that carries the response; \<open>HttpErrorResponse\<close>
  holds \<^verbatim>\<open>error.response.data?.error\<close>), or it fails without any response.
\<close>

datatype 'a http_reply = HttpOk 'a | HttpErrorResponse "string option" | HttpNoResponse error

record ecdsa_signature =
  sig_r :: "byte list"
  sig_s :: "byte list"
  sig_v :: int

text \<open>
  The libraries and the remote delegator the signing pipeline uses: ethers
  (\<^verbatim>\<open>Wallet\<close>, signing, ABI encoding, random bytes), thor-devkit (\<^verbatim>\<open>Transaction\<close>:
  signing hash and encoding, with the signature when it is set) and the delegator's
  endpoint. The type \<open>'d\<close> is the type of signing digests.
\<close>

record 'd signer_env =
  lib_Wallet :: "string \<Rightarrow> error + string"      \<comment> \<open>the address of \<^verbatim>\<open>new ethers.Wallet(key)\<close>\<close>
  lib_signingHash :: "tx_body \<Rightarrow> error + 'd"
  lib_sign :: "string \<Rightarrow> 'd \<Rightarrow> error + ecdsa_signature"
  lib_encode :: "tx_body \<Rightarrow> byte list option \<Rightarrow> error + byte list"
  lib_encodeTransfer :: "string \<Rightarrow> string \<Rightarrow> error + string"
  lib_postDelegate :: "string \<Rightarrow> string \<Rightarrow> string \<Rightarrow> delegation_response http_reply"
  lib_rng :: "nat \<Rightarrow> byte"
  lib_fp :: "nat \<Rightarrow> js_number"

record delegation_service =
  service_url :: string
  service_sponsorPrivateKey :: "string option"
  service_sponsorAddress :: "string option"

text \<open>The constructor of \<^verbatim>\<open>DelegationService\<close>: it builds a wallet from the sponsor's key
  when one is given.\<close>

definition createDelegationService ::
  "'d signer_env \<Rightarrow> string \<Rightarrow> string option \<Rightarrow> error + delegation_service" where
  "createDelegationService lib delegatorUrl sponsorPrivateKey =
     (case sponsorPrivateKey of
        None \<Rightarrow>
          Inr \<lparr>service_url = delegatorUrl, service_sponsorPrivateKey = None,
               service_sponsorAddress = None\<rparr>
      | Some key \<Rightarrow>
          if key \<noteq> [] then
            bind_err (lib_Wallet lib key) (\<lambda>address.
              Inr \<lparr>service_url = delegatorUrl, service_sponsorPrivateKey = Some key,
                   service_sponsorAddress = Some address\<rparr>)
          else
            Inr \<lparr>service_url = delegatorUrl, service_sponsorPrivateKey = None,
                 service_sponsorAddress = None\<rparr>)"

definition requestDelegation ::
  "'d signer_env \<Rightarrow> delegation_service \<Rightarrow> string \<Rightarrow> string \<Rightarrow> delegation_response run" where
  "requestDelegation lib service rawTransaction origin =
     perform (HttpPostDelegate (service_url service) rawTransaction origin)
       (case lib_postDelegate lib (service_url service) rawTransaction origin of
          HttpOk data \<Rightarrow> Inr data
        | HttpErrorResponse err \<Rightarrow>
            Inr \<lparr>resp_signature = [],
                 resp_error =
                   Some (case err of
                           None \<Rightarrow> ''Delegation request failed''
                         | Some m \<Rightarrow> if m \<noteq> [] then m else ''Delegation request failed'')\<rparr>
        | HttpNoResponse e \<Rightarrow> Inl e)"

section \<open>Transaction operations (\<^verbatim>\<open>actions/transaction/transaction.operations.ts\<close>)\<close>

text \<open>\<^verbatim>\<open>ThorClient.createBlockRef\<close>: \<^verbatim>\<open>blockId.slice(0, 18)\<close>\<close>

definition createBlockRef :: "string \<Rightarrow> string" where
  "createBlockRef blockId = take 18 blockId"

text \<open>\<^verbatim>\<open>delegationCredentials?.enableDelegation\<close>\<close>

definition enableDelegation :: "network_credentials option \<Rightarrow> bool" where
  "enableDelegation delegationCredentials =
     (case delegationCredentials of None \<Rightarrow> False | Some c \<Rightarrow> cred_enableDelegation c)"

text \<open>\<^verbatim>\<open>delegationCredentials?.delegatorUrl\<close>, when it is truthy\<close>

definition delegatorUrl :: "network_credentials option \<Rightarrow> string option" where
  "delegatorUrl delegationCredentials =
     (case delegationCredentials of
        None \<Rightarrow> None
      | Some c \<Rightarrow>
          (case cred_delegatorUrl c of
             None \<Rightarrow> None
           | Some url \<Rightarrow> if url \<noteq> [] then Some url else None))"

text \<open>\<^verbatim>\<open>delegationResponse.error\<close>, when it is truthy\<close>

definition delegationError :: "delegation_response \<Rightarrow> string option" where
  "delegationError response =
     (case resp_error response of
        None \<Rightarrow> None
      | Some err \<Rightarrow> if err \<noteq> [] then Some err else None)"

text \<open>The transaction body that \<^verbatim>\<open>sendTransaction\<close> builds and, when delegation is
  enabled, marks with the delegation feature, before it creates the transaction.\<close>

definition buildTxBody ::
  "thor_client \<Rightarrow> string \<Rightarrow> clause list \<Rightarrow> int \<Rightarrow> int \<Rightarrow> int \<Rightarrow> string
     \<Rightarrow> network_credentials option \<Rightarrow> tx_body" where
  "buildTxBody client blockRef clauses gas gasPriceCoef expiration nonce delegationCredentials =
     (let txBody =
            \<lparr>tx_chainTag = client_chainTag client,
             tx_blockRef = blockRef,
             tx_expiration = expiration,
             tx_clauses =
               map (\<lambda>c. \<lparr>clause_to = clause_to c, clause_value = clause_value c,
                          clause_data = clause_data c\<rparr>) clauses,
             tx_gasPriceCoef = gasPriceCoef,
             tx_gas = gas,
             tx_dependsOn = None,
             tx_nonce = nonce,
             tx_reserved = None\<rparr>
      in if enableDelegation delegationCredentials then txBody\<lparr>tx_reserved := Some 1\<rparr>
         else txBody)"

text \<open>
  \<^verbatim>\<open>sendTransaction\<close> runs in three stages, modelled one by one. The first builds the
  body and signs it: wallet, best block, block reference, nonce, body (with the delegation
  feature when enabled), \<^verbatim>\<open>new Transaction(txBody)\<close>, signing hash, signature
  \<^verbatim>\<open>r || s || v - 27\<close>.
\<close>

record signed_transaction =
  st_origin :: string            \<comment> \<open>\<^verbatim>\<open>wallet.address\<close>\<close>
  st_blockRef :: string
  st_body :: tx_body
  st_sig :: "byte list"          \<comment> \<open>the sender's signature \<^verbatim>\<open>sig\<close>\<close>

definition sendTransaction_sign ::
  "'d signer_env \<Rightarrow> thor_node \<Rightarrow> thor_client \<Rightarrow> clause list \<Rightarrow> string \<Rightarrow> int \<Rightarrow> int \<Rightarrow> int
     \<Rightarrow> network_credentials option \<Rightarrow> signed_transaction run" where
  "sendTransaction_sign lib node client clauses privateKey gas gasPriceCoef expiration
       delegationCredentials =
     bind_run (silent (lib_Wallet lib privateKey)) (\<lambda>walletAddress.
     bind_run (perform (HttpGetBlock ''best'') (node_getBlock node ''best'')) (\<lambda>best.
       (case best of
          None \<Rightarrow> throw TypeError
        | Some bestBlock \<Rightarrow>
            (let blockRef = createBlockRef (block_id bestBlock);
                 nonce = ThorClient_generateNonce (lib_rng lib);
                 txBody = buildTxBody client blockRef clauses gas gasPriceCoef expiration nonce
                            delegationCredentials
             in bind_run (perform (SigningHash txBody) (lib_signingHash lib txBody))
                  (\<lambda>signingHash.
                bind_run (silent (lib_sign lib privateKey signingHash)) (\<lambda>signature.
                bind_run (silent (toBeHex (sig_v signature - 27))) (\<lambda>recovery.
                  ret \<lparr>st_origin = walletAddress, st_blockRef = blockRef, st_body = txBody,
                       st_sig = sig_r signature @ sig_s signature @ recovery\<rparr>)))))))"

text \<open>
  The second stage yields the bytes of \<^verbatim>\<open>tx.signature\<close>: with delegation enabled and a
  delegator URL, the sender's signature followed by the sponsor's, obtained from the
  delegation service for the encoded unsigned transaction; otherwise the sender's
  signature alone.
\<close>

definition sendTransaction_delegate ::
  "'d signer_env \<Rightarrow> signed_transaction \<Rightarrow> network_credentials option \<Rightarrow> byte list run" where
  "sendTransaction_delegate lib st delegationCredentials =
     (case (if enableDelegation delegationCredentials
            then delegatorUrl delegationCredentials else None) of
        Some url \<Rightarrow>
          bind_run
            (silent (createDelegationService lib url
               (case delegationCredentials of
                  None \<Rightarrow> None
                | Some c \<Rightarrow> cred_delegatorPrivateKey c)))
            (\<lambda>delegationService.
          bind_run (silent (lib_encode lib (st_body st) None)) (\<lambda>unsignedBytes.
          bind_run
            (requestDelegation lib delegationService (hexlify unsignedBytes) (st_origin st))
            (\<lambda>delegationResponse.
               (case delegationError delegationResponse of
                  Some err \<Rightarrow> throw (FeeDelegationFailed err)
                | None \<Rightarrow>
                    bind_run (silent (getBytes (resp_signature delegationResponse)))
                      (\<lambda>sponsorSig. ret (st_sig st @ sponsorSig))))))
      | None \<Rightarrow> ret (st_sig st))"

text \<open>The third stage encodes the signed transaction and submits it.\<close>

definition sendTransaction_submit ::
  "'d signer_env \<Rightarrow> thor_node \<Rightarrow> signed_transaction \<Rightarrow> byte list \<Rightarrow> int \<Rightarrow> int \<Rightarrow> int
     \<Rightarrow> json run" where
  "sendTransaction_submit lib node st signature gas gasPriceCoef expiration =
     bind_run (silent (lib_encode lib (st_body st) (Some signature))) (\<lambda>bytes.
       (let encoded = hexlify bytes
        in bind_run (perform (HttpPostTransactions encoded) (node_postTransactions node encoded))
             (\<lambda>txId.
                ret (JObject
                  [(''txId'', JString txId),
                   (''origin'', JString (st_origin st)),
                   (''gas'', JInt gas),
                   (''gasPriceCoef'', JInt gasPriceCoef),
                   (''expiration'', JInt expiration),
                   (''blockRef'', JString (st_blockRef st)),
                   (''success'', JBool True),
                   (''message'', JString ''Transaction submitted successfully'')]))))"

definition sendTransaction ::
  "'d signer_env \<Rightarrow> thor_node \<Rightarrow> thor_client \<Rightarrow> clause list \<Rightarrow> string \<Rightarrow> int \<Rightarrow> int \<Rightarrow> int
     \<Rightarrow> network_credentials option \<Rightarrow> json run" where
  "sendTransaction lib node client clauses privateKey gas gasPriceCoef expiration
       delegationCredentials =
     bind_run
       (sendTransaction_sign lib node client clauses privateKey gas gasPriceCoef expiration
          delegationCredentials)
       (\<lambda>st.
     bind_run (sendTransaction_delegate lib st delegationCredentials) (\<lambda>signature.
       sendTransaction_submit lib node st signature gas gasPriceCoef expiration))"

text \<open>\<^verbatim>\<open>client.estimateGas(clauses)\<close>: one simulated call per clause.\<close>

definition estimateGas :: "thor_node \<Rightarrow> clause list \<Rightarrow> call_result list run" where
  "estimateGas node clauses = perform (HttpPostAccounts clauses) (node_postAccounts node clauses)"

text \<open>
  \<^verbatim>\<open>Math.ceil(estimates.reduce((sum, e) => sum + e.gasUsed, 0) * 1.2)\<close>: a sum and a
  product of doubles, each \<^verbatim>\<open>gasUsed\<close> being the double read from the node's answer.
\<close>

definition gasWithMargin :: "call_result list \<Rightarrow> int" where
  "gasWithMargin estimates =
     integerValue
       (Math_ceil
          (number_times
             (foldl (\<lambda>sum e. number_plus sum (Number_bigint (call_gasUsed e)))
                (integerNumber 0) estimates)
             double_1_2))"

record transaction_parameters =
  txp_toAddress :: string
  txp_amount :: string
  txp_gasLimit :: int                      \<comment> \<open>0 when the caller gives none\<close>
  txp_gasPriceCoef :: int
  txp_expiration :: int
  txp_useDelegation :: bool
  txp_clauses :: "error + clause list"     \<comment> \<open>\<^verbatim>\<open>JSON.parse(clausesJson)\<close>\<close>

text \<open>\<^verbatim>\<open>{...result, key: value, ...}\<close> for a result object and new keys.\<close>

definition withFields :: "json \<Rightarrow> (string \<times> json) list \<Rightarrow> json" where
  "withFields obj extra =
     (case obj of JObject kvs \<Rightarrow> JObject (kvs @ extra) | _ \<Rightarrow> JObject extra)"

text \<open>The sending operations of \<^verbatim>\<open>executeTransactionOperation\<close>.\<close>

datatype send_operation = SendVet | SendVtho | MultiClause

definition executeTransactionOperation ::
  "'d signer_env \<Rightarrow> thor_node \<Rightarrow> network_credentials \<Rightarrow> transaction_parameters
     \<Rightarrow> send_operation \<Rightarrow> json run" where
  "executeTransactionOperation lib node credentials p operation =
     bind_run (silent (createThorClient (cred_network credentials) (cred_nodeUrl credentials)))
       (\<lambda>client.
          (let privateKey = cred_privateKey credentials;
               gasLimit = txp_gasLimit p;
               gasPriceCoef = txp_gasPriceCoef p;
               expiration = txp_expiration p;
               useDelegation = txp_useDelegation p
           in case operation of
                SendVet \<Rightarrow>
                  bind_run (silent (vetToWei (lib_fp lib) (txp_amount p))) (\<lambda>valueWei.
                    (let clause = \<lparr>clause_to = Some (txp_toAddress p), clause_value = valueWei,
                                   clause_data = ''0x''\<rparr>
                     in bind_run
                          (sendTransaction lib node client [clause] privateKey
                             (if gasLimit \<noteq> 0 then gasLimit else 21000) gasPriceCoef expiration
                             (if useDelegation then Some credentials else None))
                          (\<lambda>result.
                             ret (withFields result
                               [(''type'', JString ''VET Transfer''),
                                (''to'', JString (txp_toAddress p)),
                                (''amount'', JString (txp_amount p)),
                                (''amountWei'', JString valueWei)]))))
              | SendVtho \<Rightarrow>
                  bind_run (silent (vthoToWei (lib_fp lib) (txp_amount p))) (\<lambda>valueWei.
                  bind_run (silent (lib_encodeTransfer lib (txp_toAddress p) valueWei)) (\<lambda>data.
                    (let clause = \<lparr>clause_to = Some VTHO_CONTRACT_ADDRESS, clause_value = ''0'',
                                   clause_data = data\<rparr>
                     in bind_run
                          (sendTransaction lib node client [clause] privateKey
                             (if gasLimit \<noteq> 0 then gasLimit else 60000) gasPriceCoef expiration
                             (if useDelegation then Some credentials else None))
                          (\<lambda>result.
                             ret (withFields result
                               [(''type'', JString ''VTHO Transfer''),
                                (''to'', JString (txp_toAddress p)),
                                (''amount'', JString (txp_amount p)),
                                (''amountWei'', JString valueWei)])))))
              | MultiClause \<Rightarrow>
                  bind_run (silent (txp_clauses p)) (\<lambda>clauses.
                  bind_run
                    (if gasLimit = 0
                     then bind_run (estimateGas node clauses)
                            (\<lambda>estimates. ret (gasWithMargin estimates))
                     else ret gasLimit)
                    (\<lambda>gas.
                  bind_run
                    (sendTransaction lib node client clauses privateKey gas gasPriceCoef
                       expiration (if useDelegation then Some credentials else None))
                    (\<lambda>result.
                       ret (withFields result
                         [(''type'', JString ''Multi-Clause Transaction''),
                          (''clauseCount'', JInt (int (length clauses)))]))))))"

text \<open>
  The gas limit of the transaction body, as the code decides it: the caller's limit when
  there is one; otherwise a constant for the two single-transfer operations, and for the
  multi-clause operation the estimate with its margin. Only that last case requests an
  estimation.
\<close>

definition gasRule :: "thor_node \<Rightarrow> transaction_parameters \<Rightarrow> send_operation \<Rightarrow> int" where
  "gasRule node p operation =
     (if txp_gasLimit p \<noteq> 0 then txp_gasLimit p
      else (case operation of
              SendVet \<Rightarrow> 21000
            | SendVtho \<Rightarrow> 60000
            | MultiClause \<Rightarrow> gasWithMargin (projr (node_postAccounts node (projr (txp_clauses p))))))"

definition estimationRule :: "transaction_parameters \<Rightarrow> send_operation \<Rightarrow> effect list" where
  "estimationRule p operation =
     (case operation of
        MultiClause \<Rightarrow>
          (case txp_clauses p of
             Inl e \<Rightarrow> []
           | Inr clauses \<Rightarrow> if txp_gasLimit p = 0 then [HttpPostAccounts clauses] else [])
      | _ \<Rightarrow> [])"


section \<open>Observations on effects\<close>

definition isCursorWrite :: "effect \<Rightarrow> bool" where
  "isCursorWrite eff = (case eff of WriteLastBlockNumber n \<Rightarrow> True | _ \<Rightarrow> False)"

definition isSubmission :: "effect \<Rightarrow> bool" where
  "isSubmission eff = (case eff of HttpPostTransactions raw \<Rightarrow> True | _ \<Rightarrow> False)"

definition isTransferQuery :: "effect \<Rightarrow> bool" where
  "isTransferQuery eff = (case eff of HttpLogsTransfer a b \<Rightarrow> True | _ \<Rightarrow> False)"

definition isGasEstimation :: "effect \<Rightarrow> bool" where
  "isGasEstimation eff = (case eff of HttpPostAccounts cs \<Rightarrow> True | _ \<Rightarrow> False)"

text \<open>A reply of the delegator that gives no sponsor signature: an error string that is
  not empty, an error status, or no response.\<close>

definition replyRejects :: "delegation_response http_reply \<Rightarrow> bool" where
  "replyRejects reply =
     (case reply of
        HttpOk response \<Rightarrow> (case delegationError response of None \<Rightarrow> False | Some err \<Rightarrow> True)
      | HttpErrorResponse err \<Rightarrow> True
      | HttpNoResponse e \<Rightarrow> True)"

definition signedBodies :: "effect list \<Rightarrow> tx_body list" where
  "signedBodies t = concat (map (\<lambda>eff. case eff of SigningHash b \<Rightarrow> [b] | _ \<Rightarrow> []) t)"

section \<open>Concrete scenarios\<close>

definition exampleBlock :: "int \<Rightarrow> block_info" where
  "exampleBlock n =
     \<lparr>block_number = n, block_id = ''0x0000006400000000000000000000000000000000000000000000000000000000'',
      block_timestamp = 1700000000, block_gasLimit = 30000000, block_gasUsed = 0,
      block_transactions = [], block_signer = ''0x00000000000000000000000000000000000000aa'',
      block_beneficiary = ''0x00000000000000000000000000000000000000bb'', block_isTrunk = True\<rparr>"

definition exampleTransfer :: "string \<Rightarrow> transfer_log" where
  "exampleTransfer amount =
     \<lparr>transfer_sender = ''0x00000000000000000000000000000000000000A1'',
      transfer_recipient = ''0x00000000000000000000000000000000000000b2'',
      transfer_amount = amount, transfer_meta = None\<rparr>"

text \<open>A node whose best block is number 100, that has every block up to it, and whose
  blocks each hold the given transfers and no event.\<close>

definition exampleNode :: "transfer_log list \<Rightarrow> thor_node" where
  "exampleNode transfers =
     \<lparr>node_getBlock =
        (\<lambda>revision.
           if revision = ''best'' then Inr (Some (exampleBlock 100))
           else (case StringToBigInt revision of
                   None \<Rightarrow> Inr None
                 | Some n \<Rightarrow> if 0 \<le> n \<and> n \<le> 100 then Inr (Some (exampleBlock n)) else Inr None)),
      node_logsTransfer = (\<lambda>a b. Inr transfers),
      node_logsEvent = (\<lambda>a b criteria. Inr []),
      node_postAccounts =
        (\<lambda>clauses. Inr (map (\<lambda>c. \<lparr>call_gasUsed = 25001, call_reverted = False,
                                       call_vmError = []\<rparr>) clauses)),
      node_postTransactions = (\<lambda>raw. Inr ''0x7e57'')\<rparr>"

definition exampleEnv :: "transfer_log list \<Rightarrow> trigger_env" where
  "exampleEnv transfers =
     \<lparr>env_node = exampleNode transfers, env_keccak256 = (\<lambda>s. ''0x00''), env_fp = (\<lambda>d. PosInfinity)\<rparr>"

definition exampleCredentials :: network_credentials where
  "exampleCredentials =
     \<lparr>cred_network = ''testnet'', cred_nodeUrl = [], cred_privateKey = ''0x01'',
      cred_enableDelegation = False, cred_delegatorUrl = None, cred_delegatorPrivateKey = None\<rparr>"

definition exampleClient :: thor_client where
  "exampleClient =
     \<lparr>client_network = ''testnet'', client_chainTag = Some 0x27,
      client_baseURL = ''https://testnet.veblocks.net''\<rparr>"

definition exampleParameters :: "string \<Rightarrow> js_number \<Rightarrow> string \<Rightarrow> trigger_parameters" where
  "exampleParameters triggerOn threshold monitorAddress =
     \<lparr>param_triggerOn = triggerOn, param_address = ''0x00000000000000000000000000000000000000b2'',
      param_tokenContract = [], param_nftContract = [], param_contractAddress = [],
      param_eventSignature = [], param_threshold = threshold,
      param_monitorAddress = monitorAddress\<rparr>"



definition exampleClause :: "string option \<Rightarrow> string \<Rightarrow> string \<Rightarrow> clause_with_meta" where
  "exampleClause to val dat =
     \<lparr>clause_to = to, clause_value = val, clause_data = dat, clause_comment = None,
      clause_gasEstimate = None\<rparr>"

text \<open>
  Libraries for the scenarios: the signing hash of a body is the body itself (so it has no
  collisions), every signature is the same 65 bytes, and the delegator answers with the
  given reply.
\<close>

definition exampleLib :: "delegation_response http_reply \<Rightarrow> tx_body signer_env" where
  "exampleLib reply =
     \<lparr>lib_Wallet = (\<lambda>key. Inr ''0x00000000000000000000000000000000000000a1''),
      lib_signingHash = (\<lambda>body. Inr body),
      lib_sign = (\<lambda>key digest. Inr \<lparr>sig_r = replicate 32 1, sig_s = replicate 32 2, sig_v = 27\<rparr>),
      lib_encode = (\<lambda>body signature. Inr (case signature of None \<Rightarrow> [0xf8] | Some s \<Rightarrow> 0xf8 # s)),
      lib_encodeTransfer = (\<lambda>to amount. Inr ''0xa9059cbb''),
      lib_postDelegate = (\<lambda>url raw origin. reply),
      lib_rng = (\<lambda>i. of_nat i),
      lib_fp = (\<lambda>d. PosInfinity)\<rparr>"

definition delegationCredentials :: network_credentials where
  "delegationCredentials =
     exampleCredentials\<lparr>cred_enableDelegation := True,
                        cred_delegatorUrl := Some ''https://sponsor.example''\<rparr>"

definition exampleTransactionParameters :: "int \<Rightarrow> bool \<Rightarrow> transaction_parameters" where
  "exampleTransactionParameters gasLimit useDelegation =
     \<lparr>txp_toAddress = ''0x00000000000000000000000000000000000000b2'', txp_amount = ''1'',
      txp_gasLimit = gasLimit, txp_gasPriceCoef = 0, txp_expiration = 720,
      txp_useDelegation = useDelegation,
      txp_clauses =
        Inr [\<lparr>clause_to = Some ''0x00000000000000000000000000000000000000b2'',
              clause_value = ''1'', clause_data = ''0x''\<rparr>]\<rparr>"

section \<open>Properties of the unit converter\<close>


lemma digit_cases:
  assumes "0 \<le> d" and "d < 16"
  shows "d \<in> {0, 1, 2, 3, 4, 5, 6, 7, 8, 9, 10, 11, 12, 13, 14, 15 :: int}"
  using assms by simp arith

lemma digitValue_digitChar:
  assumes "0 \<le> d" and "d < 16"
  shows "digitValue (digitChar (nat d)) = Some d"
  using digit_cases [OF assms] by (auto simp: digitChar_def digitValue_def)

lemma isDecimalDigit_digitChar:
  assumes "0 \<le> d" and "d < 10"
  shows "isDecimalDigit (digitChar (nat d))"
proof -
  have "d \<in> {0, 1, 2, 3, 4, 5, 6, 7, 8, 9 :: int}" using assms by simp arith
  then show ?thesis by (auto simp: digitChar_def isDecimalDigit_def)
qed

lemma parseDigits_append:
  "parseDigits r (xs @ ys) acc =
     (case parseDigits r xs acc of None \<Rightarrow> None | Some a \<Rightarrow> parseDigits r ys a)"
  by (induction xs arbitrary: acc) (auto split: option.splits)

lemma parseDigits_natToString:
  "2 \<le> r \<Longrightarrow> r \<le> 16 \<Longrightarrow> 0 \<le> n \<Longrightarrow> parseDigits r (natToString r n) 0 = Some n"
proof (induction r n rule: natToString.induct)
  case (1 r n)
  show ?case
  proof (cases "n < r")
    case True
    with 1(2,3,4) show ?thesis
      by (subst natToString.simps) (simp add: digitValue_digitChar)
  next
    case False
    with 1(2) have rec: "\<not> (n < r \<or> r < 2)" by simp
    have m: "0 \<le> n mod r" "n mod r < r" using 1(2) by simp_all
    have d: "digitValue (digitChar (nat (n mod r))) = Some (n mod r)"
      using m 1(3) by (intro digitValue_digitChar) simp_all
    have "0 \<le> n div r" using 1(2,4) by (simp add: pos_imp_zdiv_nonneg_iff)
    then have "parseDigits r (natToString r (n div r)) 0 = Some (n div r)"
      using 1(1) [OF rec] 1(2,3) by simp
    then show ?thesis
      using rec d m
      by (subst natToString.simps) (simp add: parseDigits_append)
  qed
qed

lemma natToString_not_Nil: "natToString r n \<noteq> []"
  by (subst natToString.simps) simp

lemma natToString_decimal:
  "0 \<le> n \<Longrightarrow> c \<in> set (natToString 10 n) \<Longrightarrow> isDecimalDigit c"
proof (induction "10::int" n rule: natToString.induct)
  case (1 n)
  show ?case
  proof (cases "n < 10")
    case True
    with 1(2,3) show ?thesis
      by (subst (asm) natToString.simps) (simp add: isDecimalDigit_digitChar)
  next
    case False
    then have rec: "\<not> (n < 10 \<or> (10::int) < 2)" by simp
    have "isDecimalDigit (digitChar (nat (n mod 10)))"
      by (intro isDecimalDigit_digitChar) simp_all
    moreover have "0 \<le> n div 10" using 1(2) by simp
    ultimately show ?thesis
      using 1(1) [OF rec] 1(3) rec
      by (subst (asm) natToString.simps) auto
  qed
qed

lemma trimString_id:
  assumes "\<forall>c\<in>set s. \<not> isWhiteSpace c"
  shows "trimString s = s"
proof -
  have 1: "dropWhile isWhiteSpace s = s"
    using assms by (intro dropWhile_id) simp
  have 2: "dropWhile isWhiteSpace (rev s) = rev s"
    using assms by (intro dropWhile_id) simp
  show ?thesis by (simp add: trimString_def 1 2)
qed

lemma decimal_not_space: "isDecimalDigit c \<Longrightarrow> \<not> isWhiteSpace c"
  by (simp add: isDecimalDigit_def isWhiteSpace_def)

lemma decimal_not_char: "isDecimalDigit c \<Longrightarrow> \<not> isDecimalDigit d \<Longrightarrow> c \<noteq> d"
  by blast

lemma not_decimal_chars:
  "\<not> isDecimalDigit CHR ''+''" "\<not> isDecimalDigit CHR ''-''" "\<not> isDecimalDigit CHR ''.''"
  "\<not> isDecimalDigit CHR ''x''" "\<not> isDecimalDigit CHR ''X''"
  "\<not> isDecimalDigit CHR ''o''" "\<not> isDecimalDigit CHR ''O''"
  "\<not> isDecimalDigit CHR ''b''" "\<not> isDecimalDigit CHR ''B''"
  by (simp_all add: isDecimalDigit_def)

lemma StringToBigInt_Cons:
  "trimString s = c # cs \<Longrightarrow> c \<noteq> CHR ''+'' \<Longrightarrow> c \<noteq> CHR ''-'' \<Longrightarrow>
   (case cs of [] \<Rightarrow> True | x # ds \<Rightarrow> x \<notin> set ''xXoObB'') \<Longrightarrow>
   StringToBigInt s = parseNumeral 10 (c # cs)"
  by (cases cs) (simp_all add: StringToBigInt_def)

lemma StringToBigInt_decimal:
  assumes "s \<noteq> []" and "\<forall>c\<in>set s. isDecimalDigit c"
  shows "StringToBigInt s = parseNumeral 10 s"
proof -
  have "\<forall>c\<in>set s. \<not> isWhiteSpace c"
    using assms(2) decimal_not_space by blast
  then have t: "trimString s = s"
    by (rule trimString_id)
  obtain c cs where s: "s = c # cs" using assms(1) by (cases s) auto
  have c: "isDecimalDigit c" using assms(2) s by simp
  have cs: "case cs of [] \<Rightarrow> True | x # ds \<Rightarrow> x \<notin> set ''xXoObB''"
  proof (cases cs)
    case (Cons x ds)
    then have "isDecimalDigit x" using assms(2) s by simp
    then have "x \<notin> set ''xXoObB''"
      using not_decimal_chars by auto
    with Cons show ?thesis by simp
  qed simp
  show ?thesis
    unfolding s
    by (rule StringToBigInt_Cons [OF t [unfolded s] decimal_not_char [OF c not_decimal_chars(1)]
          decimal_not_char [OF c not_decimal_chars(2)] cs])
qed

lemma BigInt_toString_nonneg: "0 \<le> n \<Longrightarrow> BigInt (toString n) = Inr n"
proof -
  assume n: "0 \<le> n"
  have "StringToBigInt (natToString 10 n) = parseNumeral 10 (natToString 10 n)"
    using n by (intro StringToBigInt_decimal natToString_not_Nil ballI natToString_decimal)
  then show ?thesis
    using n by (simp add: BigInt_def toString_def intToString_def parseNumeral_def
        natToString_not_Nil parseDigits_natToString)
qed

lemma no_point_toString_nonneg: "0 \<le> n \<Longrightarrow> CHR ''.'' \<notin> set (toString n)"
proof
  assume "0 \<le> n" and "CHR ''.'' \<in> set (toString n)"
  then have "isDecimalDigit CHR ''.''"
    by (simp add: toString_def intToString_def natToString_decimal)
  then show False
    by (simp add: not_decimal_chars)
qed

lemma bigint_div_nonneg: "0 \<le> a \<Longrightarrow> 0 < b \<Longrightarrow> bigint_div a b = a div b"
  by (cases "a = 0") (simp_all add: bigint_div_def)

lemma bigint_rem_nonneg: "0 \<le> a \<Longrightarrow> 0 < b \<Longrightarrow> bigint_rem a b = a mod b"
  by (cases "a = 0") (simp_all add: bigint_rem_def)

lemma convertUnits_integral:
  assumes "CHR ''.'' \<notin> set v" and "BigInt v = Inr b"
    and "UNIT_MULTIPLIERS (toLowerCase f) = Some (Multiplier fm)"
    and "UNIT_MULTIPLIERS (toLowerCase t) = Some (Multiplier tm)"
    and "bigint_rem (b * fm) tm = 0"
  shows "convertUnits fp v f t = Inr (toString (bigint_div (b * fm) tm))"
  using assms by (simp add: convertUnits_def bind_err_def bigint_times_def Let_def)

lemma lower_vet: "toLowerCase ''vet'' = ''vet''" and lower_wei: "toLowerCase ''wei'' = ''wei''"
  by (simp_all add: toLowerCase_def lowerChar_def)

lemma mult_vet: "UNIT_MULTIPLIERS ''vet'' = Some (Multiplier 1000000000000000000)"
  and mult_wei: "UNIT_MULTIPLIERS ''wei'' = Some (Multiplier 1)"
  by (simp_all add: UNIT_MULTIPLIERS_def)

lemma vet_to_wei_nat:
  assumes "0 \<le> n"
  shows "convertUnits fp (toString n) ''vet'' ''wei'' = Inr (toString (n * 1000000000000000000))"
proof -
  have r: "bigint_rem (n * 1000000000000000000) 1 = 0"
    using assms by (simp add: bigint_rem_nonneg)
  have d: "bigint_div (n * 1000000000000000000) 1 = n * 1000000000000000000"
    using assms by (simp add: bigint_div_nonneg)
  show ?thesis
    using convertUnits_integral [OF no_point_toString_nonneg [OF assms] BigInt_toString_nonneg [OF assms],
        of "''vet''" _ "''wei''" 1 fp]
    by (simp only: lower_vet lower_wei mult_vet mult_wei r d)
qed

lemma wei_to_vet_nat:
  assumes "0 \<le> n"
  shows "convertUnits fp (toString (n * 1000000000000000000)) ''wei'' ''vet'' = Inr (toString n)"
proof -
  have w: "0 \<le> n * 1000000000000000000" using assms by simp
  have r: "bigint_rem (n * 1000000000000000000 * 1) 1000000000000000000 = 0"
    using assms by (simp add: bigint_rem_nonneg)
  have d: "bigint_div (n * 1000000000000000000 * 1) 1000000000000000000 = n"
    using assms by (simp add: bigint_div_nonneg)
  show ?thesis
    using convertUnits_integral [OF no_point_toString_nonneg [OF w] BigInt_toString_nonneg [OF w],
        of "''wei''" _ "''vet''" "1000000000000000000" fp]
    by (simp only: lower_vet lower_wei mult_vet mult_wei r d)
qed

text \<open>
  Claim C6. For every non-negative integer \<open>n\<close>, written as a decimal string in the
  18-decimal unit \<^verbatim>\<open>vet\<close>, converting it to \<^verbatim>\<open>wei\<close> and back to \<^verbatim>\<open>vet\<close> with
  \<^verbatim>\<open>convertUnits\<close> succeeds and returns the decimal string of \<open>n\<close> again: both
  conversions are exact, whatever the platform's floating point \<open>fp\<close> does, because the
  string holds no decimal point and the factor \<open>10 ^ 18\<close> divides the value in wei.
\<close>

theorem convertUnits_vet_wei_roundtrip:
  "bind_err (convertUnits fp (toString (int n)) ''vet'' ''wei'')
     (\<lambda>wei. convertUnits fp wei ''wei'' ''vet'') = Inr (toString (int n))"
  by (simp only: vet_to_wei_nat [OF of_nat_0_le_iff] bind_err_def sum.case
      wei_to_vet_nat [OF of_nat_0_le_iff])

section \<open>Properties of the polling trigger\<close>


lemma fst_bind_run:
  "fst (bind_run m f) = (case fst m of Inl e \<Rightarrow> Inl e | Inr v \<Rightarrow> fst (f v))"
  by (simp add: bind_run_def split: prod.splits sum.splits)

lemma snd_bind_run:
  "snd (bind_run m f) = snd m @ (case fst m of Inl e \<Rightarrow> [] | Inr v \<Rightarrow> snd (f v))"
  by (simp add: bind_run_def split: prod.splits sum.splits)

lemma run_parts [simp]:
  "fst (ret v) = Inr v" "snd (ret v) = []"
  "fst (throw e) = Inl e" "snd (throw e) = []"
  "fst (silent r) = r" "snd (silent r) = []"
  "fst (perform eff r) = r" "snd (perform eff r) = [eff]"
  by (simp_all add: ret_def throw_def silent_def perform_def)

lemma isCursorWrite_simps [simp]:
  "isCursorWrite (WriteLastBlockNumber n)"
  "\<not> isCursorWrite (HttpGetBlock r)"
  "\<not> isCursorWrite (HttpLogsTransfer a b)"
  "\<not> isCursorWrite (HttpLogsEvent a b c)"
  "\<not> isCursorWrite (HttpPostAccounts cs)"
  "\<not> isCursorWrite (HttpPostDelegate u v w)"
  "\<not> isCursorWrite (HttpPostTransactions raw)"
  "\<not> isCursorWrite (SigningHash body)"
  by (simp_all add: isCursorWrite_def)

lemma processBlock_no_write:
  "filter isCursorWrite (snd (processBlock env params bestBlock blockNum block returnData)) = []"
  by (simp add: processBlock_def processVetTransfers_def processVthoTransfers_def
      processTokenTransfers_def processNftTransfers_def processContractEvents_def
      processLargeTransactions_def snd_bind_run Let_def split: sum.splits)

lemma fetchBlock_no_write:
  "filter isCursorWrite (snd (fetchBlock env bestBlock blockNum)) = []"
  by (simp add: fetchBlock_def)

lemma poll_loop_unfold:
  "poll_loop env params bestBlock blockNum returnData =
     (if blockNum \<le> block_number bestBlock then
        (case fst (fetchBlock env bestBlock blockNum) of
           Inl e \<Rightarrow> (Inl e, snd (fetchBlock env bestBlock blockNum))
         | Inr None \<Rightarrow>
             (fst (poll_loop env params bestBlock (blockNum + 1) returnData),
              snd (fetchBlock env bestBlock blockNum)
                @ snd (poll_loop env params bestBlock (blockNum + 1) returnData))
         | Inr (Some block) \<Rightarrow>
             (case fst (processBlock env params bestBlock blockNum block returnData) of
                Inl e \<Rightarrow>
                  (Inl e, snd (fetchBlock env bestBlock blockNum)
                            @ snd (processBlock env params bestBlock blockNum block returnData))
              | Inr returnData' \<Rightarrow>
                  (fst (poll_loop env params bestBlock (blockNum + 1) returnData'),
                   snd (fetchBlock env bestBlock blockNum)
                     @ snd (processBlock env params bestBlock blockNum block returnData)
                     @ snd (poll_loop env params bestBlock (blockNum + 1) returnData'))))
      else (Inr returnData, []))"
  by (subst poll_loop.simps) (auto split: prod.splits sum.splits option.splits)

lemma poll_loop_no_write:
  "filter isCursorWrite (snd (poll_loop env params bestBlock blockNum returnData)) = []"
proof (induction env params bestBlock blockNum returnData rule: poll_loop.induct)
  case (1 env params bestBlock blockNum returnData)
  show ?case
  proof (cases "blockNum \<le> block_number bestBlock")
    case False
    then show ?thesis by (subst poll_loop_unfold) simp
  next
    case True
    obtain r t where f: "fetchBlock env bestBlock blockNum = (r, t)"
      by (cases "fetchBlock env bestBlock blockNum")
    have t: "filter isCursorWrite t = []"
      using fetchBlock_no_write [of env bestBlock blockNum] f by simp
    show ?thesis
    proof (cases r)
      case (Inl e)
      with True f t show ?thesis by (subst poll_loop_unfold) simp
    next
      case (Inr ob)
      show ?thesis
      proof (cases ob)
        case None
        with True f t Inr "1.IH"(1) [OF True f [symmetric, unfolded Inr None] refl refl] show ?thesis
          by (subst poll_loop_unfold) simp
      next
        case (Some block)
        obtain r1 t1 where p: "processBlock env params bestBlock blockNum block returnData = (r1, t1)"
          by (cases "processBlock env params bestBlock blockNum block returnData")
        have t1: "filter isCursorWrite t1 = []"
          using processBlock_no_write [of env params bestBlock blockNum block returnData] p by simp
        show ?thesis
        proof (cases r1)
          case (Inl e)
          with True f t Inr Some p t1 show ?thesis by (subst poll_loop_unfold) simp
        next
          case (Inr rd)
          have "filter isCursorWrite (snd (poll_loop env params bestBlock (blockNum + 1) rd)) = []"
            using "1.IH"(2) [OF True f [symmetric, unfolded \<open>r = Inr ob\<close> Some] refl refl
                p [symmetric, unfolded Inr] refl] .
          with True f t \<open>r = Inr ob\<close> Some p t1 Inr show ?thesis
            by (subst poll_loop_unfold) simp
        qed
      qed
    qed
  qed
qed




text \<open>
  Claim C4. When the client can be created and the node answers the request for the best
  block: on the first poll tick (no persisted cursor) \<^verbatim>\<open>poll\<close> returns \<^verbatim>\<open>null\<close> (no
  events) and sets the persisted cursor to the number of the best block; on a tick where
  the number of the best block is less than or equal to the cursor, it returns
  \<^verbatim>\<open>null\<close> and leaves the persisted data unchanged (it writes nothing).
\<close>

theorem poll_first_tick_and_idle_tick:
  assumes "createThorClient (cred_network credentials) (cred_nodeUrl credentials) = Inr client"
    and "node_getBlock (env_node env) ''best'' = Inr (Some bestBlock)"
  shows
    "(static_lastBlockNumber staticData = None \<longrightarrow>
        poll env credentials params staticData =
          \<lparr>poll_result = Inr None,
           poll_staticData = staticData\<lparr>static_lastBlockNumber := Some (block_number bestBlock)\<rparr>,
           poll_effects = [HttpGetBlock ''best'', WriteLastBlockNumber (block_number bestBlock)]\<rparr>)
     \<and> (\<forall>cursor. static_lastBlockNumber staticData = Some cursor
            \<and> block_number bestBlock \<le> cursor \<longrightarrow>
          poll env credentials params staticData =
            \<lparr>poll_result = Inr None, poll_staticData = staticData,
             poll_effects = [HttpGetBlock ''best'']\<rparr>)"
  using assms by (simp add: poll_def)

lemma example_client:
  "createThorClient (cred_network exampleCredentials) (cred_nodeUrl exampleCredentials)
     = Inr exampleClient"
  by (simp add: createThorClient_def exampleCredentials_def exampleClient_def getChainTag_def
      getNodeUrl_def NETWORKS_def bind_err_def)

lemma example_best: "node_getBlock (env_node (exampleEnv ts)) ''best'' = Inr (Some (exampleBlock 100))"
  by (simp add: exampleEnv_def exampleNode_def)

theorem poll_first_tick_and_idle_tick_witness:
  "poll (exampleEnv []) exampleCredentials (exampleParameters ''vetReceived'' (Finite 1 0) [])
      \<lparr>static_lastBlockNumber = None\<rparr>
     = \<lparr>poll_result = Inr None, poll_staticData = \<lparr>static_lastBlockNumber = Some 100\<rparr>,
        poll_effects = [HttpGetBlock ''best'', WriteLastBlockNumber 100]\<rparr>
   \<and> poll (exampleEnv []) exampleCredentials (exampleParameters ''vetReceived'' (Finite 1 0) [])
      \<lparr>static_lastBlockNumber = Some 100\<rparr>
     = \<lparr>poll_result = Inr None, poll_staticData = \<lparr>static_lastBlockNumber = Some 100\<rparr>,
        poll_effects = [HttpGetBlock ''best'']\<rparr>"
  using poll_first_tick_and_idle_tick [OF example_client example_best,
      where staticData = "\<lparr>static_lastBlockNumber = None\<rparr>"]
    poll_first_tick_and_idle_tick [OF example_client example_best,
      where staticData = "\<lparr>static_lastBlockNumber = Some 100\<rparr>"]
  by (simp add: exampleBlock_def)





lemma example_block_number: "block_number (exampleBlock n) = n"
  by (simp add: exampleBlock_def)




lemma BigInt_number_error: "BigInt_number x = Inl e \<Longrightarrow> e = RangeError"
  by (auto simp: BigInt_number_def split: js_number.splits if_splits)

lemma not_integer_RangeError: "\<not> isInteger x \<Longrightarrow> BigInt_number x = Inl RangeError"
  using BigInt_number_error [of x] by (cases "BigInt_number x") (simp_all add: isInteger_def)

lemma processLargeTransactions_fractional:
  "\<not> isInteger (param_threshold params) \<Longrightarrow>
   processLargeTransactions env block params returnData = (Inl RangeError, [])"
  by (simp add: processLargeTransactions_def not_integer_RangeError bind_run_def silent_def)

lemma processBlock_large_fractional:
  "param_triggerOn params = ''largeTransaction'' \<Longrightarrow> \<not> isInteger (param_threshold params) \<Longrightarrow>
   processBlock env params bestBlock blockNum block returnData = (Inl RangeError, [])"
  by (simp add: processBlock_def processLargeTransactions_fractional)

lemma isTransferQuery_simps [simp]:
  "isTransferQuery (HttpLogsTransfer a b)"
  "\<not> isTransferQuery (WriteLastBlockNumber n)"
  "\<not> isTransferQuery (HttpGetBlock r)"
  "\<not> isTransferQuery (HttpLogsEvent a b c)"
  "\<not> isTransferQuery (HttpPostAccounts cs)"
  "\<not> isTransferQuery (HttpPostDelegate u v w)"
  "\<not> isTransferQuery (HttpPostTransactions raw)"
  "\<not> isTransferQuery (SigningHash body)"
  by (simp_all add: isTransferQuery_def)

lemma fetchBlock_cases:
  "fetchBlock env bestBlock blockNum =
     (if blockNum = block_number bestBlock then (Inr (Some bestBlock), [])
      else (node_getBlock (env_node env) (toString blockNum), [HttpGetBlock (toString blockNum)]))"
  by (simp add: fetchBlock_def ret_def perform_def)

lemma poll_loop_large_fractional:
  assumes "param_triggerOn params = ''largeTransaction''"
    and "\<not> isInteger (param_threshold params)"
  shows "blockNum \<le> block_number bestBlock \<Longrightarrow>
    isl (fst (poll_loop env params bestBlock blockNum returnData))
    \<and> filter isTransferQuery (snd (poll_loop env params bestBlock blockNum returnData)) = []
    \<and> ((\<forall>b. blockNum \<le> b \<and> b < block_number bestBlock \<longrightarrow>
            \<not> isl (node_getBlock (env_node env) (toString b)))
         \<longrightarrow> fst (poll_loop env params bestBlock blockNum returnData) = Inl RangeError)"
proof (induction "nat (block_number bestBlock - blockNum)" arbitrary: blockNum)
  case 0
  then have "blockNum = block_number bestBlock" by simp
  then show ?case
    by (subst (1 2 3) poll_loop_unfold)
      (simp add: fetchBlock_cases processBlock_large_fractional [OF assms])
next
  case (Suc k)
  then have lt: "blockNum < block_number bestBlock" by simp
  have k: "k = nat (block_number bestBlock - (blockNum + 1))" using Suc.hyps(2) by simp
  have le: "blockNum + 1 \<le> block_number bestBlock" using lt by simp
  note IH = Suc.hyps(1) [OF k le]
  show ?case
  proof (cases "node_getBlock (env_node env) (toString blockNum)")
    case (Inl e)
    with lt show ?thesis
      by (subst (1 2 3) poll_loop_unfold) (auto simp: fetchBlock_cases)
  next
    case (Inr ob)
    show ?thesis
    proof (cases ob)
      case None
      with Inr lt IH show ?thesis
        by (subst (1 2 3) poll_loop_unfold) (auto simp: fetchBlock_cases)
    next
      case (Some block)
      with Inr lt show ?thesis
        by (subst (1 2 3) poll_loop_unfold)
          (simp add: fetchBlock_cases processBlock_large_fractional [OF assms])
    qed
  qed
qed

text \<open>
  Claim C10, as amended. On a poll tick of the large-transaction trigger that enters
  catch-up with a threshold that is not an integer, \<^verbatim>\<open>processLargeTransactions\<close> throws
  a RangeError at the threshold scaling, for whatever block it is called on, before it
  requests any transfer log and before it pushes any event; the tick throws (the
  RangeError, when every block of the range before the best one can be fetched), requests
  no transfer log, writes nothing and leaves the cursor unchanged. The threshold is neither
  truncated nor rounded. A first tick or an idle tick never evaluates the threshold.
\<close>

theorem large_transaction_fractional_threshold:
  assumes "createThorClient (cred_network credentials) (cred_nodeUrl credentials) = Inr client"
    and "node_getBlock (env_node env) ''best'' = Inr (Some bestBlock)"
    and "static_lastBlockNumber staticData = Some cursor"
    and "cursor < block_number bestBlock"
    and "param_triggerOn params = ''largeTransaction''"
    and "\<not> isInteger (param_threshold params)"
  shows
    "isl (poll_result (poll env credentials params staticData))
     \<and> poll_staticData (poll env credentials params staticData) = staticData
     \<and> filter isCursorWrite (poll_effects (poll env credentials params staticData)) = []
     \<and> filter isTransferQuery (poll_effects (poll env credentials params staticData)) = []
     \<and> ((\<forall>b. cursor < b \<and> b < block_number bestBlock \<longrightarrow>
             \<not> isl (node_getBlock (env_node env) (toString b)))
          \<longrightarrow> poll_result (poll env credentials params staticData) = Inl RangeError)
     \<and> processLargeTransactions env block params returnData = (Inl RangeError, [])"
proof -
  have le: "cursor + 1 \<le> block_number bestBlock" using assms(4) by simp
  obtain r t where l: "poll_loop env params bestBlock (cursor + 1) [] = (r, t)"
    by (cases "poll_loop env params bestBlock (cursor + 1) []")
  have nw: "filter isCursorWrite t = []"
    using poll_loop_no_write [of env params bestBlock "cursor + 1" "[]"] l by simp
  from poll_loop_large_fractional [OF assms(5,6) le, of env "[]"] l
  have r: "isl r" and tq: "filter isTransferQuery t = []"
    and all: "(\<forall>b. cursor + 1 \<le> b \<and> b < block_number bestBlock \<longrightarrow>
            \<not> isl (node_getBlock (env_node env) (toString b))) \<longrightarrow> r = Inl RangeError"
    by simp_all
  from r obtain e where e: "r = Inl e" by (cases r) simp_all
  have all': "(\<forall>b. cursor < b \<and> b < block_number bestBlock \<longrightarrow>
            \<not> isl (node_getBlock (env_node env) (toString b))) \<longrightarrow> r = Inl RangeError"
    using all by simp
  show ?thesis
    using assms(1-4) l e nw tq all' processLargeTransactions_fractional [OF assms(6)]
    by (simp add: poll_def)
qed



lemma parseDigits_digit:
  "c \<in> set ds \<Longrightarrow> parseDigits r ds acc = Some v \<Longrightarrow> digitValue c \<noteq> None"
  by (induction ds arbitrary: acc) (auto split: option.splits if_splits)

lemma parseDigits_chars:
  "parseDigits r ds acc = Some v \<Longrightarrow> c \<in> set ds \<Longrightarrow> isHexDigit c"
  using parseDigits_digit [of c ds r acc v] by (auto simp: isHexDigit_def)

lemma parseNumeral_chars: "parseNumeral r ds = Some v \<Longrightarrow> c \<in> set ds \<Longrightarrow> isHexDigit c"
  by (auto simp: parseNumeral_def dest: parseDigits_chars split: if_splits)

lemma point_not_hex: "\<not> isHexDigit CHR ''.''"
  by (simp add: isHexDigit_def digitValue_def)

lemma point_not_space: "\<not> isWhiteSpace CHR ''.''"
  by (simp add: isWhiteSpace_def)

lemma dropWhile_keeps: "c \<in> set xs \<Longrightarrow> \<not> P c \<Longrightarrow> c \<in> set (dropWhile P xs)"
  by (induction xs) auto

lemma trimString_keeps: "c \<in> set s \<Longrightarrow> \<not> isWhiteSpace c \<Longrightarrow> c \<in> set (trimString s)"
  by (simp add: trimString_def dropWhile_keeps)

lemma parseNumeral_no_point: "CHR ''.'' \<in> set ds \<Longrightarrow> parseNumeral r ds = None"
  using parseNumeral_chars [of r ds _ "CHR ''.''"] point_not_hex
  by (cases "parseNumeral r ds") auto

lemma StringToBigInt_no_point:
  assumes "CHR ''.'' \<in> set s"
  shows "StringToBigInt s = None"
proof -
  have t: "CHR ''.'' \<in> set (trimString s)"
    using assms point_not_space by (rule trimString_keeps)
  then obtain c cs where tc: "trimString s = c # cs"
    by (cases "trimString s") auto
  show ?thesis
  proof (cases "c = CHR ''.''")
    case True
    have "parseNumeral 10 (CHR ''.'' # cs) = None" by (rule parseNumeral_no_point) simp
    moreover have "parseNumeral 10 [CHR ''.''] = None" by (rule parseNumeral_no_point) simp
    ultimately show ?thesis
      using tc True by (cases cs) (simp_all add: StringToBigInt_def)
  next
    case False
    with t tc have cs: "CHR ''.'' \<in> set cs" by simp
    then have 1: "parseNumeral 10 cs = None" and 2: "parseNumeral 10 (c # cs) = None"
      by (simp_all add: parseNumeral_no_point)
    show ?thesis
    proof (cases cs)
      case Nil
      with cs show ?thesis by simp
    next
      case (Cons x ds)
      show ?thesis
      proof (cases "x = CHR ''.''")
        case True
        with tc Cons 1 2 show ?thesis
          by (simp add: StringToBigInt_def)
      next
        case False
        with cs Cons have "CHR ''.'' \<in> set ds" by simp
        then have "parseNumeral 16 ds = None" "parseNumeral 8 ds = None" "parseNumeral 2 ds = None"
          by (simp_all add: parseNumeral_no_point)
        with tc Cons 1 2 show ?thesis
          by (simp add: StringToBigInt_def)
      qed
    qed
  qed
qed

lemma BigInt_no_point: "BigInt s = Inr a \<Longrightarrow> CHR ''.'' \<notin> set s"
  using StringToBigInt_no_point [of s] by (auto simp: BigInt_def)

lemma convertUnits_wei_vet_total:
  assumes "BigInt s = Inr a"
  shows "\<not> isl (convertUnits fp s ''wei'' ''vet'')"
  using assms BigInt_no_point [OF assms]
  by (simp add: convertUnits_def lower_vet lower_wei mult_vet mult_wei bind_err_def
      bigint_times_def Let_def)

lemma weiToVet_total: "BigInt s = Inr a \<Longrightarrow> \<not> isl (weiToVet fp s)"
  by (simp add: weiToVet_def convertUnits_wei_vet_total)

lemma BigInt_empty: "BigInt [] = Inr 0"
  by (simp add: BigInt_def StringToBigInt_def trimString_def)

lemma amount_parses:
  assumes "BigInt (amountOrZero transfer) = Inr a"
  shows "\<not> isl (weiToVet fp (transfer_amount transfer))"
proof (cases "transfer_amount transfer = []")
  case True
  then show ?thesis using weiToVet_total [OF BigInt_empty] by simp
next
  case False
  with assms show ?thesis by (simp add: amountOrZero_def weiToVet_total)
qed

lemma largeTransactionItem_qualifies:
  assumes "BigInt (amountOrZero transfer) = Inr a"
  shows "largeTransactionItem fp threshold thresholdWei monitorAddress transfer =
      Inr (if largeTransferQualifies thresholdWei monitorAddress transfer
           then Some (largeTransactionJson threshold transfer a
                        (projr (weiToVet fp (transfer_amount transfer))))
           else None)"
proof -
  obtain formatted where f: "weiToVet fp (transfer_amount transfer) = Inr formatted"
    using amount_parses [OF assms, of fp] by (cases "weiToVet fp (transfer_amount transfer)") auto
  show ?thesis
    using assms f
    by (auto simp: largeTransactionItem_def largeTransferQualifies_def bind_err_def)
qed

lemma pushEach_filter:
  assumes "\<forall>x\<in>set xs. body x = Inr (if Q x then Some (g x) else None)"
  shows "pushEach body xs returnData = Inr (returnData @ map g (filter Q xs))"
  using assms by (induction xs arbitrary: returnData) auto



text \<open>
  Claim C5. When the threshold is an integer \<open>t\<close> and the node returns transfers whose
  amounts are integers, \<^verbatim>\<open>processLargeTransactions\<close> pushes one event for each transfer
  that qualifies, in order, and nothing else, where a transfer qualifies if and only if its
  amount in wei is greater than or equal to \<open>t * 10 ^ 18\<close> and, when a monitor address is
  configured, its sender or its recipient equals that address without regard to case. The
  comparison is on exact integers: an amount of exactly \<open>t * 10 ^ 18\<close> qualifies (subject
  to the address filter) and \<open>t * 10 ^ 18 - 1\<close> never does.
\<close>

theorem large_transaction_classification:
  assumes "BigInt_number (param_threshold params) = Inr t"
    and "node_logsTransfer (env_node env) (block_number block) (block_number block) = Inr transfers"
    and "list_all (\<lambda>tr. \<not> isl (BigInt (amountOrZero tr))) transfers"
  shows
    "processLargeTransactions env block params returnData =
       (Inr (returnData @
             map (\<lambda>tr. largeTransactionJson (param_threshold params) tr
                          (projr (BigInt (amountOrZero tr)))
                          (projr (weiToVet (env_fp env) (transfer_amount tr))))
               (filter (largeTransferQualifies (t * 10 ^ 18) (param_monitorAddress params))
                  transfers)),
        [HttpLogsTransfer (block_number block) (block_number block)])
     \<and> (\<forall>tr m. BigInt (amountOrZero tr) = Inr (t * 10 ^ 18) \<longrightarrow>
           largeTransferQualifies (t * 10 ^ 18) m tr =
             (m = [] \<or> toLowerCase (transfer_sender tr) = toLowerCase m
                \<or> toLowerCase (transfer_recipient tr) = toLowerCase m))
     \<and> (\<forall>tr m. BigInt (amountOrZero tr) = Inr (t * 10 ^ 18 - 1) \<longrightarrow>
           \<not> largeTransferQualifies (t * 10 ^ 18) m tr)"
proof -
  have item: "\<forall>tr\<in>set transfers.
      largeTransactionItem (env_fp env) (param_threshold params) (t * 10 ^ 18)
          (param_monitorAddress params) tr =
        Inr (if largeTransferQualifies (t * 10 ^ 18) (param_monitorAddress params) tr
             then Some (largeTransactionJson (param_threshold params) tr
                          (projr (BigInt (amountOrZero tr)))
                          (projr (weiToVet (env_fp env) (transfer_amount tr))))
             else None)"
  proof
    fix tr assume "tr \<in> set transfers"
    with assms(3) have "\<not> isl (BigInt (amountOrZero tr))" by (simp add: list_all_iff)
    then obtain a where a: "BigInt (amountOrZero tr) = Inr a"
      by (cases "BigInt (amountOrZero tr)") auto
    show "largeTransactionItem (env_fp env) (param_threshold params) (t * 10 ^ 18)
          (param_monitorAddress params) tr =
        Inr (if largeTransferQualifies (t * 10 ^ 18) (param_monitorAddress params) tr
             then Some (largeTransactionJson (param_threshold params) tr
                          (projr (BigInt (amountOrZero tr)))
                          (projr (weiToVet (env_fp env) (transfer_amount tr))))
             else None)"
      using largeTransactionItem_qualifies [OF a] a by simp
  qed
  have run: "processLargeTransactions env block params returnData =
       (Inr (returnData @
             map (\<lambda>tr. largeTransactionJson (param_threshold params) tr
                          (projr (BigInt (amountOrZero tr)))
                          (projr (weiToVet (env_fp env) (transfer_amount tr))))
               (filter (largeTransferQualifies (t * 10 ^ 18) (param_monitorAddress params))
                  transfers)),
        [HttpLogsTransfer (block_number block) (block_number block)])"
    using assms(1,2) pushEach_filter [OF item, of returnData]
    by (simp add: processLargeTransactions_def bind_run_def silent_def perform_def)
  show ?thesis
    using run by (simp add: largeTransferQualifies_def)
qed

lemma example_amounts:
  "BigInt (amountOrZero (exampleTransfer ''1000000000000000000'')) = Inr 1000000000000000000"
  "BigInt (amountOrZero (exampleTransfer ''999999999999999999'')) = Inr 999999999999999999"
  by code_simp+

lemma example_formatted:
  "weiToVet fp ''1000000000000000000'' = Inr ''1''"
  by code_simp

lemma example_qualifies:
  "largeTransferQualifies 1000000000000000000 [] (exampleTransfer ''1000000000000000000'')"
  "\<not> largeTransferQualifies 1000000000000000000 [] (exampleTransfer ''999999999999999999'')"
  "largeTransferQualifies 1000000000000000000 ''0x00000000000000000000000000000000000000a1''
     (exampleTransfer ''1000000000000000000'')"
  "\<not> largeTransferQualifies 1000000000000000000 ''0x00000000000000000000000000000000000000c3''
     (exampleTransfer ''1000000000000000000'')"
  by code_simp+

theorem large_transaction_classification_witness:
  "processLargeTransactions
      (exampleEnv [exampleTransfer ''1000000000000000000'', exampleTransfer ''999999999999999999''])
      (exampleBlock 100) (exampleParameters ''largeTransaction'' (Finite 1 0) []) []
     = (Inr [largeTransactionJson (Finite 1 0) (exampleTransfer ''1000000000000000000'')
               1000000000000000000 ''1''],
        [HttpLogsTransfer 100 100])"
proof -
  have 1: "BigInt_number (param_threshold (exampleParameters ''largeTransaction'' (Finite 1 0) []))
      = Inr 1"
    by (simp add: exampleParameters_def BigInt_number_def)
  have 2: "node_logsTransfer
        (env_node (exampleEnv [exampleTransfer ''1000000000000000000'',
           exampleTransfer ''999999999999999999'']))
        (block_number (exampleBlock 100)) (block_number (exampleBlock 100))
      = Inr [exampleTransfer ''1000000000000000000'', exampleTransfer ''999999999999999999'']"
    by (simp add: exampleEnv_def exampleNode_def)
  have 3: "list_all (\<lambda>tr. \<not> isl (BigInt (amountOrZero tr)))
      [exampleTransfer ''1000000000000000000'', exampleTransfer ''999999999999999999'']"
    by (simp add: example_amounts)
  have p: "param_threshold (exampleParameters ''largeTransaction'' (Finite 1 0) []) = Finite 1 0"
    "param_monitorAddress (exampleParameters ''largeTransaction'' (Finite 1 0) []) = []"
    by (simp_all add: exampleParameters_def)
  have a: "transfer_amount (exampleTransfer ''1000000000000000000'') = ''1000000000000000000''"
    by (simp add: exampleTransfer_def)
  from large_transaction_classification [OF 1 2 3, of "[]"] show ?thesis
    by (simp add: p a example_qualifies example_amounts example_formatted example_block_number)
qed


lemma example_not_integer: "\<not> isInteger (Finite 3 (- 1))"
  by (simp add: isInteger_def BigInt_number_def)

theorem large_transaction_fractional_threshold_witness:
  "\<not> isInteger (Finite 3 (- 1))
   \<and> isl (poll_result (poll (exampleEnv []) exampleCredentials
            (exampleParameters ''largeTransaction'' (Finite 3 (- 1)) [])
            \<lparr>static_lastBlockNumber = Some 98\<rparr>))
   \<and> poll_staticData (poll (exampleEnv []) exampleCredentials
            (exampleParameters ''largeTransaction'' (Finite 3 (- 1)) [])
            \<lparr>static_lastBlockNumber = Some 98\<rparr>) = \<lparr>static_lastBlockNumber = Some 98\<rparr>
   \<and> filter isCursorWrite (poll_effects (poll (exampleEnv []) exampleCredentials
            (exampleParameters ''largeTransaction'' (Finite 3 (- 1)) [])
            \<lparr>static_lastBlockNumber = Some 98\<rparr>)) = []
   \<and> filter isTransferQuery (poll_effects (poll (exampleEnv []) exampleCredentials
            (exampleParameters ''largeTransaction'' (Finite 3 (- 1)) [])
            \<lparr>static_lastBlockNumber = Some 98\<rparr>)) = []"
proof -
  have 3: "static_lastBlockNumber \<lparr>static_lastBlockNumber = Some 98\<rparr> = Some 98"
    by simp
  have 4: "98 < block_number (exampleBlock 100)"
    by (simp add: example_block_number)
  have 5: "param_triggerOn (exampleParameters ''largeTransaction'' (Finite 3 (- 1)) [])
      = ''largeTransaction''"
    by (simp add: exampleParameters_def)
  have 6: "\<not> isInteger (param_threshold (exampleParameters ''largeTransaction'' (Finite 3 (- 1)) []))"
    by (simp add: exampleParameters_def example_not_integer)
  from large_transaction_fractional_threshold [OF example_client example_best 3 4 5 6]
  show ?thesis
    by (simp add: example_not_integer)
qed

text \<open>
  Claim C10 as stated fails on a first tick: with the large-transaction trigger and the
  threshold 1.5, a tick without persisted cursor throws nothing, and it sets the cursor.
\<close>

theorem large_transaction_first_tick_counterexample:
  "\<not> isInteger (Finite 3 (- 1))
   \<and> poll (exampleEnv []) exampleCredentials
        (exampleParameters ''largeTransaction'' (Finite 3 (- 1)) [])
        \<lparr>static_lastBlockNumber = None\<rparr>
     = \<lparr>poll_result = Inr None, poll_staticData = \<lparr>static_lastBlockNumber = Some 100\<rparr>,
        poll_effects = [HttpGetBlock ''best'', WriteLastBlockNumber 100]\<rparr>"
  by (simp add: example_not_integer poll_def example_client example_best example_block_number)

section \<open>Properties of the clause builder and of the nonces\<close>


lemma validateClause_checks:
  "validateClause i c errs =
     errs
     @ (case clause_to c of
          None \<Rightarrow> []
        | Some a \<Rightarrow> if isValidAddress a then []
                    else [''Clause '' @ toString (int i) @ '': Invalid 'to' address''])
     @ (case StringToBigInt (clause_value c) of
          None \<Rightarrow> [''Clause '' @ toString (int i) @ '': Invalid 'value'' @ [CHR 0x27]]
        | Some b \<Rightarrow> [])
     @ (if startsWith (clause_data c) ''0x'' then []
        else [''Clause '' @ toString (int i) @ '': Data must start with 0x''])"
  by (simp add: validateClause_def BigInt_def Let_def split: option.splits)

lemma validateClause_append: "validateClause i c errs = errs @ validateClause i c []"
  by (simp add: validateClause_checks [of i c errs] validateClause_checks [of i c "[]"])

lemma validateClause_accepted: "validateClause i c [] = [] \<longleftrightarrow> clauseAccepted c"
  by (simp add: validateClause_checks clauseAccepted_def split: option.splits)

lemma validate_loop_all:
  "validate_loop clauses i errs =
     errs @ concat (map (\<lambda>j. validateClause j (clauses ! j) []) [i..<length clauses])"
proof (induction clauses i errs rule: validate_loop.induct)
  case (1 clauses i errs)
  show ?case
  proof (cases "i < length clauses")
    case True
    then show ?thesis
      using "1.IH" [OF True] validateClause_append [of i "clauses ! i" errs]
      by (subst validate_loop.simps) (simp add: upt_rec [of i])
  next
    case False
    then show ?thesis by (subst validate_loop.simps) simp
  qed
qed

lemma concat_all_empty:
  "concat (map f [0..<length xs]) = [] \<longleftrightarrow> (\<forall>j<length xs. f j = [])"
  by auto

text \<open>
  Claim C7, as amended. \<^verbatim>\<open>validate\<close> does not stop at the first problem: its error list
  is the message for an empty clause list followed, clause by clause, by one message for
  each failed check of that clause, the checks being that a non-null \<^verbatim>\<open>to\<close> is 0x and 40
  hex digits, that \<^verbatim>\<open>value\<close> is accepted by \<^verbatim>\<open>BigInt\<close> (an integer literal, whose sign is
  not examined) and that \<^verbatim>\<open>data\<close> starts with 0x. The result is valid exactly when
  there is a clause and every clause passes the three checks; an empty list yields exactly
  the one message; a clause with an invalid address yields a message that holds its index.
\<close>

theorem validate_reports_every_violation:
  "errors (validate clauses) =
     (if clauses = [] then [''No clauses added''] else [])
     @ concat (map (\<lambda>j. validateClause j (clauses ! j) []) [0..<length clauses])
   \<and> validateClause i c [] =
       (case clause_to c of
          None \<Rightarrow> []
        | Some a \<Rightarrow> if isValidAddress a then []
                    else [''Clause '' @ toString (int i) @ '': Invalid 'to' address''])
       @ (case StringToBigInt (clause_value c) of
            None \<Rightarrow> [''Clause '' @ toString (int i) @ '': Invalid 'value'' @ [CHR 0x27]]
          | Some b \<Rightarrow> [])
       @ (if startsWith (clause_data c) ''0x'' then []
          else [''Clause '' @ toString (int i) @ '': Data must start with 0x''])
   \<and> valid (validate clauses) = (clauses \<noteq> [] \<and> list_all clauseAccepted clauses)
   \<and> validate [] = \<lparr>valid = False, errors = [''No clauses added'']\<rparr>
   \<and> (k < length clauses \<and> clause_to (clauses ! k) = Some a \<and> \<not> isValidAddress a \<longrightarrow>
        (''Clause '' @ toString (int k) @ '': Invalid 'to' address'') \<in> set (errors (validate clauses)))"
proof -
  have e: "errors (validate clauses) =
     (if clauses = [] then [''No clauses added''] else [])
     @ concat (map (\<lambda>j. validateClause j (clauses ! j) []) [0..<length clauses])"
    by (simp add: validate_def validate_loop_all)
  have v: "valid (validate clauses) = (clauses \<noteq> [] \<and> list_all clauseAccepted clauses)"
  proof -
    have "valid (validate clauses) = (errors (validate clauses) = [])"
      by (simp add: validate_def Let_def)
    also have "\<dots> = (clauses \<noteq> [] \<and> (\<forall>j<length clauses. validateClause j (clauses ! j) [] = []))"
      unfolding e using concat_all_empty [of "\<lambda>j. validateClause j (clauses ! j) []" clauses]
      by auto
    also have "\<dots> = (clauses \<noteq> [] \<and> list_all clauseAccepted clauses)"
      by (simp add: validateClause_accepted list_all_length)
    finally show ?thesis .
  qed
  have n: "validate [] = \<lparr>valid = False, errors = [''No clauses added'']\<rparr>"
    by (simp add: validate_def validate_loop_all)
  have a: "k < length clauses \<and> clause_to (clauses ! k) = Some a \<and> \<not> isValidAddress a \<longrightarrow>
        (''Clause '' @ toString (int k) @ '': Invalid 'to' address'') \<in> set (errors (validate clauses))"
  proof (intro impI, elim conjE)
    assume k: "k < length clauses" and t: "clause_to (clauses ! k) = Some a"
      and i: "\<not> isValidAddress a"
    have "(''Clause '' @ toString (int k) @ '': Invalid 'to' address'')
        \<in> set (validateClause k (clauses ! k) [])"
      using t i by (simp add: validateClause_checks)
    moreover have "k \<in> set [0..<length clauses]" using k by simp
    ultimately show "(''Clause '' @ toString (int k) @ '': Invalid 'to' address'')
        \<in> set (errors (validate clauses))"
      unfolding e by auto
  qed
  show ?thesis
    using e v n a validateClause_checks [of i c "[]"] by simp
qed

lemma example_invalid_address: "\<not> isValidAddress ''0x123''"
  by (simp add: isValidAddress_def)

theorem validate_reports_every_violation_witness:
  "1 < length [exampleClause None ''7'' ''0x'', exampleClause (Some ''0x123'') ''1.5'' ''ff'']
   \<and> clause_to ([exampleClause None ''7'' ''0x'', exampleClause (Some ''0x123'') ''1.5'' ''ff''] ! 1)
       = Some ''0x123''
   \<and> \<not> isValidAddress ''0x123''
   \<and> (''Clause '' @ toString (int 1) @ '': Invalid 'to' address'')
       \<in> set (errors (validate
             [exampleClause None ''7'' ''0x'', exampleClause (Some ''0x123'') ''1.5'' ''ff'']))"
  using validate_reports_every_violation
    [of "[exampleClause None ''7'' ''0x'', exampleClause (Some ''0x123'') ''1.5'' ''ff'']" _ _ 1
      "''0x123''"]
  by (simp add: example_invalid_address exampleClause_def)

lemma example_errors:
  "validate [exampleClause None ''7'' ''0x'', exampleClause (Some ''0x123'') ''1.5'' ''ff'']
     = \<lparr>valid = False,
        errors = [''Clause 1: Invalid 'to' address'', ''Clause 1: Invalid 'value'' @ [CHR 0x27],
                  ''Clause 1: Data must start with 0x'']\<rparr>"
  by code_simp

text \<open>
  Claim C7 as stated fails for a negative value: \<^verbatim>\<open>BigInt('-5')\<close> does not throw, so a
  clause whose value is \<^verbatim>\<open>-5\<close> is reported valid.
\<close>

theorem validate_negative_value_counterexample:
  "BigInt ''-5'' = Inr (- 5)
   \<and> validate [exampleClause None ''-5'' ''0x''] = \<lparr>valid = True, errors = []\<rparr>"
  by code_simp

lemma length_hexlify: "length (hexlify bs) = 2 + 2 * length bs"
  by (induction bs) (simp_all add: hexlify_def hexByte_def)

subsection \<open>The nonce of the operation files\<close>

text \<open>
  Whatever \<^verbatim>\<open>Math.random()\<close> returns (a double \<open>m * 2 ^ e\<close> of the interval from 0 to 1,
  1 excluded), \<^verbatim>\<open>Math.floor(Math.random() * 0xffffffff)\<close> is below \<open>2 ^ 32\<close>, so the nonce
  of the operation files has 8 hex digits: 4 bytes.
\<close>

lemma bits_bounds: "0 < a \<Longrightarrow> 2 ^ (bits a - 1) \<le> a \<and> a < 2 ^ bits a"
proof (induction a rule: bits.induct)
  case (1 n)
  show ?case
  proof (cases "n div 2 \<le> 0")
    case True
    with 1(2) have "n = 1" by simp
    then show ?thesis by (simp add: bits.simps)
  next
    case False
    then have pos: "0 < n div 2" by simp
    from 1(1) 1(2) pos have IH: "2 ^ (bits (n div 2) - 1) \<le> n div 2 \<and> n div 2 < 2 ^ bits (n div 2)"
      by simp
    have b: "bits n = Suc (bits (n div 2))" using 1(2) by (subst bits.simps) simp
    have bp: "0 < bits (n div 2)" using pos by (subst bits.simps) simp
    then have e: "(2::int) ^ bits (n div 2) = 2 * 2 ^ (bits (n div 2) - 1)"
      by (cases "bits (n div 2)") simp_all
    from IH e b show ?thesis by simp linarith
  qed
qed

lemma length_padStart: "length (padStart n c s) = max n (length s)"
proof (induction n c s rule: padStart.induct)
  case (1 n c s)
  show ?case
  proof (cases "length s < n")
    case True
    with 1 show ?thesis by (subst padStart.simps) simp
  next
    case False
    then show ?thesis by (subst padStart.simps) simp
  qed
qed

lemma int_div_less: "0 < (d::int) \<Longrightarrow> x < k * d \<Longrightarrow> x div d < k"
proof -
  assume d: "0 < d" and lt: "x < k * d"
  have "x div d * d + x mod d = x" by simp
  moreover have "0 \<le> x mod d" using d by simp
  ultimately have "x div d * d < k * d" using lt by linarith
  with d show ?thesis by simp
qed

lemma length_natToString:
  "2 \<le> r \<Longrightarrow> 0 \<le> n \<Longrightarrow> n < r ^ Suc L \<Longrightarrow> length (natToString r n) \<le> Suc L"
proof (induction L arbitrary: n)
  case 0
  then show ?case by (subst natToString.simps) simp
next
  case (Suc L)
  show ?case
  proof (cases "n < r")
    case True
    then show ?thesis by (subst natToString.simps) simp
  next
    case False
    from Suc.prems have "n < (r ^ Suc L) * r" by (simp add: mult.commute)
    with Suc.prems(1) have "n div r < r ^ Suc L"
      by (intro int_div_less) simp_all
    moreover from Suc.prems have "0 \<le> n div r" by (simp add: pos_imp_zdiv_nonneg_iff)
    ultimately have "length (natToString r (n div r)) \<le> Suc L"
      using Suc.IH Suc.prems(1) by simp
    with False Suc.prems(1) show ?thesis by (subst natToString.simps) simp
  qed
qed


lemma integerValue_floor:
  "e < 0 \<Longrightarrow> integerValue (Math_floor (Finite q e)) = q div 2 ^ nat (- e)"
  by (simp add: integerValue_def Math_floor_def BigInt_number_def)

lemma integerValue_floor_zero: "integerValue (Math_floor (Finite 0 e)) = 0"
  by (simp add: integerValue_def Math_floor_def BigInt_number_def)

lemma bits_zero: "bits 0 = 0"
  by (simp add: bits.simps)

lemma scaled_random_bounds:
  assumes m: "0 \<le> m" and unit: "m = 0 \<or> (e < 0 \<and> m < 2 ^ nat (- e))"
  defines "v \<equiv> integerValue (Math_floor (number_times (Finite m e) (integerNumber 0xffffffff)))"
  shows "0 \<le> v \<and> v < 0xffffffff + 1"
proof (cases "m = 0")
  case True
  then have "v = 0"
    by (simp add: v_def number_times_def integerNumber_def roundDouble_def bits_zero
        integerValue_floor_zero)
  then show ?thesis by simp
next
  case False
  with m unit have mpos: "0 < m" and e: "e < 0" and lt: "m < 2 ^ nat (- e)" by simp_all
  define n where "n = nat (- e)"
  define x where "x = m * 4294967295"
  have xpos: "0 < x" using mpos by (simp add: x_def)
  have xlt: "x < 4294967295 * 2 ^ n" using lt by (simp add: x_def n_def)
  have prod: "number_times (Finite m e) (integerNumber 0xffffffff) = roundDouble x e"
    by (simp add: number_times_def integerNumber_def x_def)
  show ?thesis
  proof (cases "bits x \<le> 53")
    case True
    with xpos have "roundDouble x e = Finite x e" by (simp add: roundDouble_def)
    with prod e have v: "v = x div 2 ^ n" by (simp add: v_def integerValue_floor n_def)
    have "x div 2 ^ n < 4294967295" using xlt by (intro int_div_less) simp_all
    moreover have "0 \<le> x div 2 ^ n" using xpos by (simp add: pos_imp_zdiv_nonneg_iff)
    ultimately show ?thesis using v by simp
  next
    case False
    define s where "s = bits x - 53"
    define q where "q = x div 2 ^ s"
    define q' where
      "q' = (if 2 ^ (s - 1) < x mod 2 ^ s \<or> (x mod 2 ^ s = 2 ^ (s - 1) \<and> odd q) then q + 1 else q)"
    have rd: "roundDouble x e = Finite q' (e + int s)"
      using False xpos by (simp add: roundDouble_def Let_def s_def q_def q'_def)
    have "(2::int) ^ (bits x - 1) \<le> x" using bits_bounds [OF xpos] by simp
    also have "x < 2 ^ (n + 32)"
    proof -
      have "0 < (2::int) ^ n" by simp
      with xlt have "x < 2 ^ n * 4294967296" by linarith
      then show ?thesis by (simp add: power_add)
    qed
    finally have "bits x - 1 < n + 32" by (simp add: power_strict_increasing_iff)
    with False have sn: "s < n" by (simp add: s_def)
    then have neg: "e + int s < 0" using e by (simp add: n_def)
    have k: "nat (- (e + int s)) = n - s" using e sn by (simp add: n_def)
    from prod rd neg k have v: "v = q' div 2 ^ (n - s)"
      by (simp add: v_def integerValue_floor)
    have "(2::int) ^ n = 2 ^ (n - s) * 2 ^ s" using sn by (simp flip: power_add)
    with xlt have "x < (4294967295 * 2 ^ (n - s)) * 2 ^ s" by simp
    then have "q < 4294967295 * 2 ^ (n - s)" unfolding q_def by (intro int_div_less) simp_all
    then have up: "q' \<le> 4294967295 * 2 ^ (n - s)" by (simp add: q'_def)
    have "0 \<le> q" using xpos by (simp add: q_def pos_imp_zdiv_nonneg_iff)
    then have low: "0 \<le> q'" by (simp add: q'_def)
    have "q' div 2 ^ (n - s) \<le> (4294967295 * 2 ^ (n - s)) div 2 ^ (n - s)"
      using up by (intro zdiv_mono1) simp_all
    then have "q' div 2 ^ (n - s) \<le> 4294967295" by simp
    moreover have "0 \<le> q' div 2 ^ (n - s)" using low by (simp add: pos_imp_zdiv_nonneg_iff)
    ultimately show ?thesis using v by simp
  qed
qed

lemma generateNonce_length:
  assumes "0 \<le> m" and "m = 0 \<or> (e < 0 \<and> m < 2 ^ nat (- e))"
  shows "length (generateNonce (Finite m e)) = 10"
proof -
  define v where
    "v = integerValue (Math_floor (number_times (Finite m e) (integerNumber 0xffffffff)))"
  from scaled_random_bounds [OF assms] have v: "0 \<le> v" "v < 16 ^ Suc 7"
    by (simp_all add: v_def)
  then have "length (natToString 16 v) \<le> 8"
    using length_natToString [of 16 v 7] by simp
  with v(1) show ?thesis
    by (simp add: generateNonce_def intToString_def length_padStart flip: v_def)
qed

text \<open>
  Claim C8. The nonce of \<^verbatim>\<open>ThorClient.generateNonce\<close> is 8 random bytes (16 hex digits)
  of the cryptographic generator. The \<^verbatim>\<open>generateNonce\<close> of the vet, vtho, vip180, vip181
  and contract operations is not: it is computed from \<^verbatim>\<open>Math.random()\<close> and has 4 bytes
  (8 hex digits); when \<^verbatim>\<open>Math.random()\<close> returns 0.5 it is \<^verbatim>\<open>0x7fffffff\<close>.
\<close>

theorem generateNonce_is_four_bytes_example:
  "generateNonce (Finite 1 (- 1)) = ''0x7fffffff''
   \<and> length (generateNonce (Finite 1 (- 1))) = 2 + 2 * 4
   \<and> length (ThorClient_generateNonce rng) = 2 + 2 * 8"
proof -
  have "generateNonce (Finite 1 (- 1)) = ''0x7fffffff''" by code_simp
  moreover have "length (ThorClient_generateNonce rng) = 2 + 2 * 8"
    by (simp add: ThorClient_generateNonce_def length_hexlify randomBytes_def)
  ultimately show ?thesis by simp
qed


section \<open>Properties of the signing pipeline\<close>


lemma isSubmission_simps [simp]:
  "isSubmission (HttpPostTransactions raw)"
  "\<not> isSubmission (WriteLastBlockNumber n)"
  "\<not> isSubmission (HttpGetBlock r)"
  "\<not> isSubmission (HttpLogsTransfer a b)"
  "\<not> isSubmission (HttpLogsEvent a b c)"
  "\<not> isSubmission (HttpPostAccounts cs)"
  "\<not> isSubmission (HttpPostDelegate u v w)"
  "\<not> isSubmission (SigningHash body)"
  by (simp_all add: isSubmission_def)

lemma sign_effects:
  "snd (sendTransaction_sign lib node client clauses privateKey gas gasPriceCoef expiration dc) =
     (case lib_Wallet lib privateKey of
        Inl e \<Rightarrow> []
      | Inr walletAddress \<Rightarrow>
          HttpGetBlock ''best'' #
          (case node_getBlock node ''best'' of
             Inr (Some bestBlock) \<Rightarrow>
               [SigningHash (buildTxBody client (createBlockRef (block_id bestBlock)) clauses gas
                  gasPriceCoef expiration (ThorClient_generateNonce (lib_rng lib)) dc)]
           | _ \<Rightarrow> []))"
  by (simp add: sendTransaction_sign_def snd_bind_run Let_def split: sum.splits option.splits)

lemma sign_result:
  "fst (sendTransaction_sign lib node client clauses privateKey gas gasPriceCoef expiration dc)
     = Inr st \<Longrightarrow>
   \<exists>bestBlock. node_getBlock node ''best'' = Inr (Some bestBlock)
     \<and> st_body st = buildTxBody client (createBlockRef (block_id bestBlock)) clauses gas
          gasPriceCoef expiration (ThorClient_generateNonce (lib_rng lib)) dc
     \<and> lib_Wallet lib privateKey = Inr (st_origin st)
     \<and> \<not> isl (lib_signingHash lib (st_body st))"
  by (auto simp: sendTransaction_sign_def fst_bind_run Let_def split: sum.splits option.splits)

lemma delegate_effects:
  "snd (sendTransaction_delegate lib st dc) =
     (case (if enableDelegation dc then delegatorUrl dc else None) of
        None \<Rightarrow> []
      | Some url \<Rightarrow>
          (case createDelegationService lib url
                  (case dc of None \<Rightarrow> None | Some c \<Rightarrow> cred_delegatorPrivateKey c) of
             Inl e \<Rightarrow> []
           | Inr service \<Rightarrow>
               (case lib_encode lib (st_body st) None of
                  Inl e \<Rightarrow> []
                | Inr unsignedBytes \<Rightarrow>
                    [HttpPostDelegate (service_url service) (hexlify unsignedBytes) (st_origin st)])))"
  by (simp add: sendTransaction_delegate_def snd_bind_run requestDelegation_def
      split: sum.splits option.splits)

lemma createDelegationService_url:
  "createDelegationService lib url key = Inr service \<Longrightarrow> service_url service = url"
  by (auto simp: createDelegationService_def bind_err_def split: option.splits if_splits sum.splits)

lemma submit_effects:
  "snd (sendTransaction_submit lib node st signature gas gasPriceCoef expiration) =
     (case lib_encode lib (st_body st) (Some signature) of
        Inl e \<Rightarrow> []
      | Inr bytes \<Rightarrow> [HttpPostTransactions (hexlify bytes)])"
  by (simp add: sendTransaction_submit_def snd_bind_run Let_def split: sum.splits)

lemma submit_success:
  "fst (sendTransaction_submit lib node st signature gas gasPriceCoef expiration) = Inr r \<Longrightarrow>
   \<not> isl (lib_encode lib (st_body st) (Some signature))"
  by (auto simp: sendTransaction_submit_def fst_bind_run Let_def split: sum.splits)

lemma no_submission_before_submit:
  "filter isSubmission
     (snd (sendTransaction_sign lib node client clauses privateKey gas gasPriceCoef expiration dc)) = []"
  "filter isSubmission (snd (sendTransaction_delegate lib st dc)) = []"
  by (simp_all add: sign_effects delegate_effects split: sum.splits option.splits)

lemma sendTransaction_submissions:
  "filter isSubmission
     (snd (sendTransaction lib node client clauses privateKey gas gasPriceCoef expiration dc)) =
     (case fst (sendTransaction_sign lib node client clauses privateKey gas gasPriceCoef
                  expiration dc) of
        Inl e \<Rightarrow> []
      | Inr st \<Rightarrow>
          (case fst (sendTransaction_delegate lib st dc) of
             Inl e \<Rightarrow> []
           | Inr signature \<Rightarrow>
               (case lib_encode lib (st_body st) (Some signature) of
                  Inl e \<Rightarrow> []
                | Inr bytes \<Rightarrow> [HttpPostTransactions (hexlify bytes)])))"
  by (simp add: sendTransaction_def snd_bind_run no_submission_before_submit submit_effects
      split: sum.splits)

lemma sendTransaction_result:
  "fst (sendTransaction lib node client clauses privateKey gas gasPriceCoef expiration dc) =
     (case fst (sendTransaction_sign lib node client clauses privateKey gas gasPriceCoef
                  expiration dc) of
        Inl e \<Rightarrow> Inl e
      | Inr st \<Rightarrow>
          (case fst (sendTransaction_delegate lib st dc) of
             Inl e \<Rightarrow> Inl e
           | Inr signature \<Rightarrow>
               fst (sendTransaction_submit lib node st signature gas gasPriceCoef expiration)))"
  by (simp add: sendTransaction_def fst_bind_run split: sum.splits)

lemma sendTransaction_success_one_submission:
  "fst (sendTransaction lib node client clauses privateKey gas gasPriceCoef expiration dc) = Inr r
   \<Longrightarrow> length (filter isSubmission
         (snd (sendTransaction lib node client clauses privateKey gas gasPriceCoef expiration dc))) = 1"
  by (auto simp: sendTransaction_submissions sendTransaction_result
      dest: submit_success split: sum.splits)

text \<open>What the delegation stage returns once the request has been sent.\<close>

lemma delegate_after_request:
  assumes "enableDelegation dc" and "delegatorUrl dc = Some url"
    and "createDelegationService lib url
           (case dc of None \<Rightarrow> None | Some c \<Rightarrow> cred_delegatorPrivateKey c) = Inr service"
    and "lib_encode lib (st_body st) None = Inr unsignedBytes"
  shows "fst (sendTransaction_delegate lib st dc) =
     (case lib_postDelegate lib url (hexlify unsignedBytes) (st_origin st) of
        HttpOk response \<Rightarrow>
          (case delegationError response of
             Some err \<Rightarrow> Inl (FeeDelegationFailed err)
           | None \<Rightarrow>
               (case getBytes (resp_signature response) of
                  Inl e \<Rightarrow> Inl e
                | Inr sponsorSig \<Rightarrow> Inr (st_sig st @ sponsorSig)))
      | HttpErrorResponse err \<Rightarrow>
          Inl (FeeDelegationFailed
                 (case err of
                    None \<Rightarrow> ''Delegation request failed''
                  | Some m \<Rightarrow> if m \<noteq> [] then m else ''Delegation request failed''))
      | HttpNoResponse e \<Rightarrow> Inl e)"
  using assms createDelegationService_url [OF assms(3)]
  by (simp add: sendTransaction_delegate_def fst_bind_run requestDelegation_def delegationError_def
      split: http_reply.splits option.splits sum.splits)



lemma signedBodies_simps [simp]:
  "signedBodies [] = []"
  "signedBodies (SigningHash b # t) = b # signedBodies t"
  "signedBodies (HttpGetBlock r # t) = signedBodies t"
  "signedBodies (HttpLogsTransfer x y # t) = signedBodies t"
  "signedBodies (HttpLogsEvent x y c # t) = signedBodies t"
  "signedBodies (HttpPostAccounts cs # t) = signedBodies t"
  "signedBodies (HttpPostDelegate u v w # t) = signedBodies t"
  "signedBodies (HttpPostTransactions raw # t) = signedBodies t"
  "signedBodies (WriteLastBlockNumber n # t) = signedBodies t"
  "signedBodies (t @ t') = signedBodies t @ signedBodies t'"
  by (simp_all add: signedBodies_def)

lemma isGasEstimation_simps [simp]:
  "isGasEstimation (HttpPostAccounts cs)"
  "\<not> isGasEstimation (HttpPostTransactions raw)"
  "\<not> isGasEstimation (WriteLastBlockNumber n)"
  "\<not> isGasEstimation (HttpGetBlock r)"
  "\<not> isGasEstimation (HttpLogsTransfer a b)"
  "\<not> isGasEstimation (HttpLogsEvent a b c)"
  "\<not> isGasEstimation (HttpPostDelegate u v w)"
  "\<not> isGasEstimation (SigningHash body)"
  by (simp_all add: isGasEstimation_def)

lemma sendTransaction_effects:
  "snd (sendTransaction lib node client clauses privateKey gas gasPriceCoef expiration dc) =
     snd (sendTransaction_sign lib node client clauses privateKey gas gasPriceCoef expiration dc)
     @ (case fst (sendTransaction_sign lib node client clauses privateKey gas gasPriceCoef
                    expiration dc) of
          Inl e \<Rightarrow> []
        | Inr st \<Rightarrow>
            snd (sendTransaction_delegate lib st dc)
            @ (case fst (sendTransaction_delegate lib st dc) of
                 Inl e \<Rightarrow> []
               | Inr signature \<Rightarrow>
                   snd (sendTransaction_submit lib node st signature gas gasPriceCoef expiration)))"
  by (simp add: sendTransaction_def snd_bind_run split: sum.splits)

lemma later_stages_sign_nothing:
  "signedBodies (snd (sendTransaction_delegate lib st dc)) = []"
  "signedBodies (snd (sendTransaction_submit lib node st signature gas gasPriceCoef expiration)) = []"
  by (simp_all add: delegate_effects submit_effects split: sum.splits option.splits)

lemma no_estimation_in_send:
  "filter isGasEstimation
     (snd (sendTransaction lib node client clauses privateKey gas gasPriceCoef expiration dc)) = []"
  by (simp add: sendTransaction_effects sign_effects delegate_effects submit_effects
      split: sum.splits option.splits)

lemma sendTransaction_signedBodies:
  "signedBodies
     (snd (sendTransaction lib node client clauses privateKey gas gasPriceCoef expiration dc)) =
     (case lib_Wallet lib privateKey of
        Inl e \<Rightarrow> []
      | Inr walletAddress \<Rightarrow>
          (case node_getBlock node ''best'' of
             Inr (Some bestBlock) \<Rightarrow>
               [buildTxBody client (createBlockRef (block_id bestBlock)) clauses gas gasPriceCoef
                  expiration (ThorClient_generateNonce (lib_rng lib)) dc]
           | _ \<Rightarrow> []))"
  by (simp add: sendTransaction_effects later_stages_sign_nothing sign_effects
      split: sum.splits option.splits)

lemma sendTransaction_success_signed:
  assumes "fst (sendTransaction lib node client clauses privateKey gas gasPriceCoef expiration dc)
             = Inr r"
  shows "\<exists>body. signedBodies
           (snd (sendTransaction lib node client clauses privateKey gas gasPriceCoef expiration dc))
         = [body]"
proof -
  from assms obtain st where
    "fst (sendTransaction_sign lib node client clauses privateKey gas gasPriceCoef expiration dc)
       = Inr st"
    by (auto simp: sendTransaction_result split: sum.splits)
  from sign_result [OF this] show ?thesis
    by (auto simp: sendTransaction_signedBodies)
qed

lemma buildTxBody_fields:
  "tx_gas (buildTxBody client blockRef clauses gas gasPriceCoef expiration nonce dc) = gas"
  "tx_reserved (buildTxBody client blockRef clauses gas gasPriceCoef expiration nonce dc) =
     (if enableDelegation dc then Some 1 else None)"
  by (simp_all add: buildTxBody_def Let_def)

lemma buildTxBody_delegation:
  "buildTxBody client blockRef clauses gas gasPriceCoef expiration nonce dc =
     (buildTxBody client blockRef clauses gas gasPriceCoef expiration nonce None)
       \<lparr>tx_reserved := (if enableDelegation dc then Some 1 else None)\<rparr>"
  by (simp add: buildTxBody_def enableDelegation_def Let_def)

lemma sendTransaction_gas:
  "list_all (\<lambda>b. tx_gas b = gas)
     (signedBodies
        (snd (sendTransaction lib node client clauses privateKey gas gasPriceCoef expiration dc)))"
  by (simp add: sendTransaction_signedBodies buildTxBody_fields split: sum.splits option.splits)

text \<open>
  Claim C1. The only transaction body whose signing hash \<^verbatim>\<open>sendTransaction\<close> computes
  is the body it built, and that body carries \<^verbatim>\<open>reserved.features = 1\<close> exactly when
  delegation is requested (\<^verbatim>\<open>delegationCredentials?.enableDelegation\<close> is truthy): the
  feature is set before the transaction is created and hashed. A body built with
  delegation and the body built without it from the same inputs differ in that field and
  in nothing else, so their signing digests differ whenever the signing hash has no
  collision.
\<close>

theorem delegation_feature_is_signed:
  assumes "\<forall>b b' d. lib_signingHash lib b = Inr d \<and> lib_signingHash lib b' = Inr d \<longrightarrow> b = b'"
    and "enableDelegation dcOn" and "\<not> enableDelegation dcOff"
  shows
    "signedBodies
       (snd (sendTransaction lib node client clauses privateKey gas gasPriceCoef expiration dc)) =
       (case lib_Wallet lib privateKey of
          Inl e \<Rightarrow> []
        | Inr walletAddress \<Rightarrow>
            (case node_getBlock node ''best'' of
               Inr (Some bestBlock) \<Rightarrow>
                 [buildTxBody client (createBlockRef (block_id bestBlock)) clauses gas gasPriceCoef
                    expiration (ThorClient_generateNonce (lib_rng lib)) dc]
             | _ \<Rightarrow> []))
     \<and> tx_reserved (buildTxBody client blockRef clauses gas gasPriceCoef expiration nonce dcOn)
         = Some 1
     \<and> tx_reserved (buildTxBody client blockRef clauses gas gasPriceCoef expiration nonce dcOff)
         = None
     \<and> buildTxBody client blockRef clauses gas gasPriceCoef expiration nonce dcOn =
         (buildTxBody client blockRef clauses gas gasPriceCoef expiration nonce dcOff)
           \<lparr>tx_reserved := Some 1\<rparr>
     \<and> (lib_signingHash lib
            (buildTxBody client blockRef clauses gas gasPriceCoef expiration nonce dcOn) = Inr digestOn
          \<and> lib_signingHash lib
            (buildTxBody client blockRef clauses gas gasPriceCoef expiration nonce dcOff) = Inr digestOff
          \<longrightarrow> digestOn \<noteq> digestOff)"
proof -
  let ?on = "buildTxBody client blockRef clauses gas gasPriceCoef expiration nonce dcOn"
  let ?off = "buildTxBody client blockRef clauses gas gasPriceCoef expiration nonce dcOff"
  have on: "tx_reserved ?on = Some 1" and off: "tx_reserved ?off = None"
    using assms(2,3) by (simp_all add: buildTxBody_fields)
  have eq: "?on = ?off\<lparr>tx_reserved := Some 1\<rparr>"
    using assms(2,3)
    by (simp add: buildTxBody_delegation [of _ _ _ _ _ _ _ dcOn]
        buildTxBody_delegation [of _ _ _ _ _ _ _ dcOff])
  have ne: "?on \<noteq> ?off" using on off by auto
  have dig: "lib_signingHash lib ?on = Inr digestOn \<and> lib_signingHash lib ?off = Inr digestOff
      \<longrightarrow> digestOn \<noteq> digestOff"
    using assms(1) ne by blast
  show ?thesis
    using on off eq dig sendTransaction_signedBodies by simp
qed



lemma example_hash_injective:
  "\<forall>b b' d. lib_signingHash (exampleLib reply) b = Inr d
      \<and> lib_signingHash (exampleLib reply) b' = Inr d \<longrightarrow> b = b'"
  by (simp add: exampleLib_def)

lemma example_delegation_flags:
  "enableDelegation (Some delegationCredentials)" "\<not> enableDelegation None"
  "delegatorUrl (Some delegationCredentials) = Some ''https://sponsor.example''"
  by (simp_all add: enableDelegation_def delegatorUrl_def delegationCredentials_def
      exampleCredentials_def)

theorem delegation_feature_is_signed_witness:
  "enableDelegation (Some delegationCredentials) \<and> \<not> enableDelegation None
   \<and> signedBodies
       (snd (sendTransaction (exampleLib (HttpNoResponse (ExternalError ''unreachable'')))
               (exampleNode []) exampleClient [] ''0x01'' 21000 0 720
               (Some delegationCredentials)))
     = [buildTxBody exampleClient ''0x0000006400000000'' [] 21000 0 720 ''0x0001020304050607''
          (Some delegationCredentials)]
   \<and> tx_reserved (buildTxBody exampleClient ''0x0000006400000000'' [] 21000 0 720
         ''0x0001020304050607'' (Some delegationCredentials)) = Some 1
   \<and> lib_signingHash (exampleLib (HttpNoResponse (ExternalError ''unreachable'')))
        (buildTxBody exampleClient ''0x0000006400000000'' [] 21000 0 720 ''0x0001020304050607''
           (Some delegationCredentials))
      \<noteq> lib_signingHash (exampleLib (HttpNoResponse (ExternalError ''unreachable'')))
        (buildTxBody exampleClient ''0x0000006400000000'' [] 21000 0 720 ''0x0001020304050607''
           None)"
proof -
  have nonce: "ThorClient_generateNonce (lib_rng (exampleLib r)) = ''0x0001020304050607''" for r
    by code_simp
  have ref: "createBlockRef (block_id (exampleBlock 100)) = ''0x0000006400000000''"
    by code_simp
  have w: "lib_Wallet (exampleLib r) k = Inr ''0x00000000000000000000000000000000000000a1''" for r k
    by (simp add: exampleLib_def)
  have b: "node_getBlock (exampleNode []) ''best'' = Inr (Some (exampleBlock 100))"
    by (simp add: exampleNode_def)
  have h: "lib_signingHash (exampleLib r) body = Inr body" for r body
    by (simp add: exampleLib_def)
  from delegation_feature_is_signed
      [OF example_hash_injective [of "HttpNoResponse (ExternalError ''unreachable'')"]
        example_delegation_flags(1,2),
      where node = "exampleNode []" and client = exampleClient and clauses = "[]"
        and privateKey = "''0x01''" and gas = 21000 and gasPriceCoef = 0 and expiration = 720
        and dc = "Some delegationCredentials" and blockRef = "''0x0000006400000000''"
        and nonce = "''0x0001020304050607''"]
  show ?thesis
    by (simp add: example_delegation_flags nonce ref w b h)
qed



lemma delegate_rejected:
  assumes "enableDelegation dc" and "delegatorUrl dc = Some url"
    and "\<forall>raw origin. replyRejects (lib_postDelegate lib url raw origin)"
  shows "isl (fst (sendTransaction_delegate lib st dc))"
proof (cases "createDelegationService lib url
           (case dc of None \<Rightarrow> None | Some c \<Rightarrow> cred_delegatorPrivateKey c)")
  case (Inl e)
  with assms(1,2) show ?thesis
    by (simp add: sendTransaction_delegate_def fst_bind_run)
next
  case (Inr service)
  show ?thesis
  proof (cases "lib_encode lib (st_body st) None")
    case (Inl e)
    with assms(1,2) Inr show ?thesis
      by (simp add: sendTransaction_delegate_def fst_bind_run)
  next
    case (Inr unsignedBytes)
    from assms(3) have "replyRejects (lib_postDelegate lib url (hexlify unsignedBytes) (st_origin st))"
      by blast
    then show ?thesis
      unfolding delegate_after_request [OF assms(1,2) \<open>createDelegationService lib url _ = Inr service\<close> Inr]
      by (auto simp: replyRejects_def split: http_reply.splits option.splits)
  qed
qed

text \<open>
  Claim C2, as amended. In \<^verbatim>\<open>sendTransaction\<close> with delegation enabled and a delegator
  URL: if the delegator gives no sponsor signature (it answers with an error string that
  is not empty or with an error status, or the request fails without a response), the
  operation throws and submits nothing; once the request has been sent, the error is
  \<^verbatim>\<open>Fee delegation failed: ...\<close> with the service's message for an error string or an
  error status (\<^verbatim>\<open>Delegation request failed\<close> when the status carries none), and the
  transport error itself when there was no response. Whenever \<^verbatim>\<open>sendTransaction\<close>
  succeeds it has made exactly one submission.
\<close>

theorem delegation_failure_never_submits:
  assumes "enableDelegation dc" and "delegatorUrl dc = Some url"
  shows
    "((\<forall>raw origin. replyRejects (lib_postDelegate lib url raw origin)) \<longrightarrow>
        isl (fst (sendTransaction lib node client clauses key gas coef expiration dc))
        \<and> filter isSubmission
            (snd (sendTransaction lib node client clauses key gas coef expiration dc)) = [])
     \<and> (fst (sendTransaction_sign lib node client clauses key gas coef expiration dc) = Inr st
          \<and> createDelegationService lib url
               (case dc of None \<Rightarrow> None | Some c \<Rightarrow> cred_delegatorPrivateKey c) = Inr service
          \<and> lib_encode lib (st_body st) None = Inr unsignedBytes \<longrightarrow>
        (replyRejects (lib_postDelegate lib url (hexlify unsignedBytes) (st_origin st)) \<longrightarrow>
           filter isSubmission
             (snd (sendTransaction lib node client clauses key gas coef expiration dc)) = [])
        \<and> (case lib_postDelegate lib url (hexlify unsignedBytes) (st_origin st) of
             HttpOk response \<Rightarrow>
               (case delegationError response of
                  Some err \<Rightarrow>
                    fst (sendTransaction lib node client clauses key gas coef expiration dc)
                      = Inl (FeeDelegationFailed err)
                | None \<Rightarrow> True)
           | HttpErrorResponse err \<Rightarrow>
               fst (sendTransaction lib node client clauses key gas coef expiration dc)
                 = Inl (FeeDelegationFailed
                          (case err of
                             None \<Rightarrow> ''Delegation request failed''
                           | Some m \<Rightarrow> if m \<noteq> [] then m else ''Delegation request failed''))
           | HttpNoResponse e \<Rightarrow>
               fst (sendTransaction lib node client clauses key gas coef expiration dc) = Inl e))
     \<and> (fst (sendTransaction lib node client clauses key gas coef expiration dc) = Inr r \<longrightarrow>
          length (filter isSubmission
            (snd (sendTransaction lib node client clauses key gas coef expiration dc))) = 1)"
proof -
  have A: "(\<forall>raw origin. replyRejects (lib_postDelegate lib url raw origin)) \<longrightarrow>
        isl (fst (sendTransaction lib node client clauses key gas coef expiration dc))
        \<and> filter isSubmission
            (snd (sendTransaction lib node client clauses key gas coef expiration dc)) = []"
  proof (intro impI)
    assume rej: "\<forall>raw origin. replyRejects (lib_postDelegate lib url raw origin)"
    have no: "fst (sendTransaction_delegate lib st' dc) \<noteq> Inr s" for st' s
      using delegate_rejected [OF assms rej, of st'] by auto
    show "isl (fst (sendTransaction lib node client clauses key gas coef expiration dc))
        \<and> filter isSubmission
            (snd (sendTransaction lib node client clauses key gas coef expiration dc)) = []"
      using no
      by (auto simp: sendTransaction_result sendTransaction_submissions split: sum.splits)
  qed
  have B: "fst (sendTransaction_sign lib node client clauses key gas coef expiration dc) = Inr st
          \<and> createDelegationService lib url
               (case dc of None \<Rightarrow> None | Some c \<Rightarrow> cred_delegatorPrivateKey c) = Inr service
          \<and> lib_encode lib (st_body st) None = Inr unsignedBytes \<longrightarrow>
        (replyRejects (lib_postDelegate lib url (hexlify unsignedBytes) (st_origin st)) \<longrightarrow>
           filter isSubmission
             (snd (sendTransaction lib node client clauses key gas coef expiration dc)) = [])
        \<and> (case lib_postDelegate lib url (hexlify unsignedBytes) (st_origin st) of
             HttpOk response \<Rightarrow>
               (case delegationError response of
                  Some err \<Rightarrow>
                    fst (sendTransaction lib node client clauses key gas coef expiration dc)
                      = Inl (FeeDelegationFailed err)
                | None \<Rightarrow> True)
           | HttpErrorResponse err \<Rightarrow>
               fst (sendTransaction lib node client clauses key gas coef expiration dc)
                 = Inl (FeeDelegationFailed
                          (case err of
                             None \<Rightarrow> ''Delegation request failed''
                           | Some m \<Rightarrow> if m \<noteq> [] then m else ''Delegation request failed''))
           | HttpNoResponse e \<Rightarrow>
               fst (sendTransaction lib node client clauses key gas coef expiration dc) = Inl e)"
  proof (intro impI)
    assume h: "fst (sendTransaction_sign lib node client clauses key gas coef expiration dc) = Inr st
        \<and> createDelegationService lib url
             (case dc of None \<Rightarrow> None | Some c \<Rightarrow> cred_delegatorPrivateKey c) = Inr service
        \<and> lib_encode lib (st_body st) None = Inr unsignedBytes"
    note d = delegate_after_request [OF assms conjunct1 [OF conjunct2 [OF h]]
        conjunct2 [OF conjunct2 [OF h]]]
    show "(replyRejects (lib_postDelegate lib url (hexlify unsignedBytes) (st_origin st)) \<longrightarrow>
           filter isSubmission
             (snd (sendTransaction lib node client clauses key gas coef expiration dc)) = [])
        \<and> (case lib_postDelegate lib url (hexlify unsignedBytes) (st_origin st) of
             HttpOk response \<Rightarrow>
               (case delegationError response of
                  Some err \<Rightarrow>
                    fst (sendTransaction lib node client clauses key gas coef expiration dc)
                      = Inl (FeeDelegationFailed err)
                | None \<Rightarrow> True)
           | HttpErrorResponse err \<Rightarrow>
               fst (sendTransaction lib node client clauses key gas coef expiration dc)
                 = Inl (FeeDelegationFailed
                          (case err of
                             None \<Rightarrow> ''Delegation request failed''
                           | Some m \<Rightarrow> if m \<noteq> [] then m else ''Delegation request failed''))
           | HttpNoResponse e \<Rightarrow>
               fst (sendTransaction lib node client clauses key gas coef expiration dc) = Inl e)"
      using h d
      by (auto simp: sendTransaction_result sendTransaction_submissions replyRejects_def
          split: sum.splits http_reply.splits option.splits)
  qed
  have C: "fst (sendTransaction lib node client clauses key gas coef expiration dc) = Inr r \<longrightarrow>
          length (filter isSubmission
            (snd (sendTransaction lib node client clauses key gas coef expiration dc))) = 1"
    using sendTransaction_success_one_submission by blast
  show ?thesis
    using A B C by blast
qed

lemma example_sign_stage:
  "fst (sendTransaction_sign (exampleLib reply) (exampleNode []) exampleClient [] ''0x01'' 21000 0
          720 (Some delegationCredentials))
     = Inr \<lparr>st_origin = ''0x00000000000000000000000000000000000000a1'',
            st_blockRef = ''0x0000006400000000'',
            st_body = buildTxBody exampleClient ''0x0000006400000000'' [] 21000 0 720
                        ''0x0001020304050607'' (Some delegationCredentials),
            st_sig = replicate 32 1 @ replicate 32 2 @ [0]\<rparr>"
  by code_simp

lemma example_service:
  "createDelegationService (exampleLib reply) ''https://sponsor.example''
      (cred_delegatorPrivateKey delegationCredentials)
     = Inr \<lparr>service_url = ''https://sponsor.example'', service_sponsorPrivateKey = None,
            service_sponsorAddress = None\<rparr>"
  by code_simp

lemma example_unsigned: "lib_encode (exampleLib reply) body None = Inr [0xf8]"
  by (simp add: exampleLib_def)

lemma example_reply: "lib_postDelegate (exampleLib reply) url raw origin = reply"
  by (simp add: exampleLib_def)

theorem delegation_failure_never_submits_witness:
  "enableDelegation (Some delegationCredentials)
   \<and> delegatorUrl (Some delegationCredentials) = Some ''https://sponsor.example''
   \<and> replyRejects (HttpOk \<lparr>resp_signature = [], resp_error = Some ''not whitelisted''\<rparr>)
   \<and> fst (sendTransaction
            (exampleLib (HttpOk \<lparr>resp_signature = [], resp_error = Some ''not whitelisted''\<rparr>))
            (exampleNode []) exampleClient [] ''0x01'' 21000 0 720 (Some delegationCredentials))
       = Inl (FeeDelegationFailed ''not whitelisted'')
   \<and> filter isSubmission
         (snd (sendTransaction
            (exampleLib (HttpOk \<lparr>resp_signature = [], resp_error = Some ''not whitelisted''\<rparr>))
            (exampleNode []) exampleClient [] ''0x01'' 21000 0 720 (Some delegationCredentials)))
       = []"
proof -
  have r: "replyRejects (HttpOk \<lparr>resp_signature = [], resp_error = Some ''not whitelisted''\<rparr>)"
    by (simp add: replyRejects_def delegationError_def)
  have e: "delegationError \<lparr>resp_signature = [], resp_error = Some ''not whitelisted''\<rparr>
      = Some ''not whitelisted''"
    by (simp add: delegationError_def)
  from delegation_failure_never_submits [OF example_delegation_flags(1,3),
      where lib = "exampleLib (HttpOk \<lparr>resp_signature = [], resp_error = Some ''not whitelisted''\<rparr>)"
        and node = "exampleNode []" and client = exampleClient and clauses = "[]"
        and key = "''0x01''" and gas = 21000 and coef = 0 and expiration = 720
        and unsignedBytes = "[0xf8]"
        and st = "\<lparr>st_origin = ''0x00000000000000000000000000000000000000a1'',
            st_blockRef = ''0x0000006400000000'',
            st_body = buildTxBody exampleClient ''0x0000006400000000'' [] 21000 0 720
                        ''0x0001020304050607'' (Some delegationCredentials),
            st_sig = replicate 32 1 @ replicate 32 2 @ [0]\<rparr>"
        and service = "\<lparr>service_url = ''https://sponsor.example'',
            service_sponsorPrivateKey = None, service_sponsorAddress = None\<rparr>"]
  show ?thesis
    by (simp add: example_delegation_flags r e example_sign_stage example_service
        example_unsigned example_reply)
qed

text \<open>
  Claim C2 as stated fails in two ways. When the delegation request fails without a response
  the operation throws that transport error, not a delegation-failed error; and when the
  service answers with an empty error string next to a signature, the operation
  succeeds and submits the transaction.
\<close>

theorem delegation_error_counterexample:
  "fst (sendTransaction (exampleLib (HttpNoResponse (ExternalError ''ECONNREFUSED'')))
          (exampleNode []) exampleClient [] ''0x01'' 21000 0 720 (Some delegationCredentials))
     = Inl (ExternalError ''ECONNREFUSED'')
   \<and> isl (fst (sendTransaction
          (exampleLib (HttpOk \<lparr>resp_signature = ''0x0304'', resp_error = Some []\<rparr>))
          (exampleNode []) exampleClient [] ''0x01'' 21000 0 720 (Some delegationCredentials)))
       = False
   \<and> length (filter isSubmission (snd (sendTransaction
          (exampleLib (HttpOk \<lparr>resp_signature = ''0x0304'', resp_error = Some []\<rparr>))
          (exampleNode []) exampleClient [] ''0x01'' 21000 0 720 (Some delegationCredentials))))
       = 1"
  by code_simp



lemma estimateGas_parts:
  "fst (estimateGas node clauses) = node_postAccounts node clauses"
  "snd (estimateGas node clauses) = [HttpPostAccounts clauses]"
  by (simp_all add: estimateGas_def)

text \<open>The margin on some totals; beyond \<open>2 ^ 53\<close> the sum itself is rounded.\<close>

lemma gasWithMargin_examples:
  "gasWithMargin [] = 0"
  "gasWithMargin [\<lparr>call_gasUsed = 21000, call_reverted = False, call_vmError = []\<rparr>] = 25200"
  "gasWithMargin [\<lparr>call_gasUsed = 21000, call_reverted = False, call_vmError = []\<rparr>,
                  \<lparr>call_gasUsed = 15582, call_reverted = False, call_vmError = []\<rparr>] = 43899"
  "gasWithMargin [\<lparr>call_gasUsed = 9007199254740992, call_reverted = False, call_vmError = []\<rparr>,
                  \<lparr>call_gasUsed = 1, call_reverted = False, call_vmError = []\<rparr>]
     = 10808639105689190"
  "gasWithMargin [\<lparr>call_gasUsed = 9007199254740993, call_reverted = False, call_vmError = []\<rparr>]
     = 10808639105689190"
  by code_simp+

lemma getBytes_examples:
  "getBytes ''0x0304'' = Inr [3, 4]"
  "getBytes ''0X03aF'' = Inr [3, 175]"
  "getBytes ''0x030'' = Inl (ExternalError ''invalid BytesLike value'')"
  "getBytes ''0304'' = Inl (ExternalError ''invalid BytesLike value'')"
  by code_simp+

lemma filter_estimation_append_send:
  "filter isGasEstimation
     (t @ snd (sendTransaction lib node client clauses privateKey gas gasPriceCoef expiration dc))
   = filter isGasEstimation t"
  by (simp add: no_estimation_in_send)

lemma sendTransaction_success_gas:
  assumes "fst (sendTransaction lib node client clauses privateKey gas gasPriceCoef expiration dc)
             = Inr r"
  shows "map tx_gas (signedBodies
           (snd (sendTransaction lib node client clauses privateKey gas gasPriceCoef expiration dc)))
         = [gas]"
  using sendTransaction_success_signed [OF assms]
    sendTransaction_gas [of gas lib node client clauses privateKey gasPriceCoef expiration dc]
  by auto

text \<open>The gas limit each sending operation passes to \<^verbatim>\<open>sendTransaction\<close>.\<close>

lemma execute_sendVet:
  assumes "createThorClient (cred_network credentials) (cred_nodeUrl credentials) = Inr client"
  shows "executeTransactionOperation lib node credentials p SendVet =
     bind_run (silent (vetToWei (lib_fp lib) (txp_amount p))) (\<lambda>valueWei.
       bind_run
         (sendTransaction lib node client
            [\<lparr>clause_to = Some (txp_toAddress p), clause_value = valueWei, clause_data = ''0x''\<rparr>]
            (cred_privateKey credentials)
            (if txp_gasLimit p \<noteq> 0 then txp_gasLimit p else 21000) (txp_gasPriceCoef p)
            (txp_expiration p) (if txp_useDelegation p then Some credentials else None))
         (\<lambda>result.
            ret (withFields result
              [(''type'', JString ''VET Transfer''),
               (''to'', JString (txp_toAddress p)),
               (''amount'', JString (txp_amount p)),
               (''amountWei'', JString valueWei)])))"
  using assms
  by (simp add: executeTransactionOperation_def bind_run_def silent_def Let_def)

lemma execute_sendVtho:
  assumes "createThorClient (cred_network credentials) (cred_nodeUrl credentials) = Inr client"
  shows "executeTransactionOperation lib node credentials p SendVtho =
     bind_run (silent (vthoToWei (lib_fp lib) (txp_amount p))) (\<lambda>valueWei.
     bind_run (silent (lib_encodeTransfer lib (txp_toAddress p) valueWei)) (\<lambda>data.
       bind_run
         (sendTransaction lib node client
            [\<lparr>clause_to = Some VTHO_CONTRACT_ADDRESS, clause_value = ''0'', clause_data = data\<rparr>]
            (cred_privateKey credentials)
            (if txp_gasLimit p \<noteq> 0 then txp_gasLimit p else 60000) (txp_gasPriceCoef p)
            (txp_expiration p) (if txp_useDelegation p then Some credentials else None))
         (\<lambda>result.
            ret (withFields result
              [(''type'', JString ''VTHO Transfer''),
               (''to'', JString (txp_toAddress p)),
               (''amount'', JString (txp_amount p)),
               (''amountWei'', JString valueWei)]))))"
  using assms
  by (simp add: executeTransactionOperation_def bind_run_def silent_def Let_def)

lemma execute_multiClause:
  assumes "createThorClient (cred_network credentials) (cred_nodeUrl credentials) = Inr client"
  shows "executeTransactionOperation lib node credentials p MultiClause =
     bind_run (silent (txp_clauses p)) (\<lambda>clauses.
     bind_run
       (if txp_gasLimit p = 0
        then bind_run (estimateGas node clauses) (\<lambda>estimates. ret (gasWithMargin estimates))
        else ret (txp_gasLimit p))
       (\<lambda>gas.
     bind_run
       (sendTransaction lib node client clauses (cred_privateKey credentials) gas
          (txp_gasPriceCoef p) (txp_expiration p)
          (if txp_useDelegation p then Some credentials else None))
       (\<lambda>result.
          ret (withFields result
            [(''type'', JString ''Multi-Clause Transaction''),
             (''clauseCount'', JInt (int (length clauses)))]))))"
  using assms
  by (simp add: executeTransactionOperation_def bind_run_def silent_def Let_def)

lemma sendVet_gas:
  assumes "createThorClient (cred_network credentials) (cred_nodeUrl credentials) = Inr client"
  shows "list_all (\<lambda>b. tx_gas b = gasRule node p SendVet)
           (signedBodies (snd (executeTransactionOperation lib node credentials p SendVet)))
    \<and> filter isGasEstimation (snd (executeTransactionOperation lib node credentials p SendVet)) = []
    \<and> (fst (executeTransactionOperation lib node credentials p SendVet) = Inr r \<longrightarrow>
         map tx_gas (signedBodies (snd (executeTransactionOperation lib node credentials p SendVet)))
           = [gasRule node p SendVet])"
  unfolding execute_sendVet [OF assms]
  by (auto simp: gasRule_def fst_bind_run snd_bind_run sendTransaction_gas no_estimation_in_send
      sendTransaction_success_gas split: sum.splits)



lemma sendVtho_gas:
  assumes "createThorClient (cred_network credentials) (cred_nodeUrl credentials) = Inr client"
  shows "list_all (\<lambda>b. tx_gas b = gasRule node p SendVtho)
           (signedBodies (snd (executeTransactionOperation lib node credentials p SendVtho)))
    \<and> filter isGasEstimation (snd (executeTransactionOperation lib node credentials p SendVtho)) = []
    \<and> (fst (executeTransactionOperation lib node credentials p SendVtho) = Inr r \<longrightarrow>
         map tx_gas (signedBodies (snd (executeTransactionOperation lib node credentials p SendVtho)))
           = [gasRule node p SendVtho])"
  unfolding execute_sendVtho [OF assms]
  by (auto simp: gasRule_def fst_bind_run snd_bind_run sendTransaction_gas no_estimation_in_send
      sendTransaction_success_gas split: sum.splits)

lemma multiClause_gas:
  assumes "createThorClient (cred_network credentials) (cred_nodeUrl credentials) = Inr client"
  shows "list_all (\<lambda>b. tx_gas b = gasRule node p MultiClause)
           (signedBodies (snd (executeTransactionOperation lib node credentials p MultiClause)))
    \<and> filter isGasEstimation (snd (executeTransactionOperation lib node credentials p MultiClause))
        = estimationRule p MultiClause
    \<and> (fst (executeTransactionOperation lib node credentials p MultiClause) = Inr r \<longrightarrow>
         map tx_gas
           (signedBodies (snd (executeTransactionOperation lib node credentials p MultiClause)))
           = [gasRule node p MultiClause])"
proof (cases "txp_clauses p")
  case (Inl e)
  then show ?thesis
    unfolding execute_multiClause [OF assms]
    by (simp add: estimationRule_def fst_bind_run snd_bind_run)
next
  case (Inr clauses)
  show ?thesis
  proof (cases "txp_gasLimit p = 0")
    case False
    with Inr show ?thesis
      unfolding execute_multiClause [OF assms]
      by (auto simp: gasRule_def estimationRule_def fst_bind_run snd_bind_run sendTransaction_gas
          no_estimation_in_send sendTransaction_success_gas split: sum.splits)
  next
    case True
    show ?thesis
    proof (cases "node_postAccounts node clauses")
      case (Inl e)
      with Inr True show ?thesis
        unfolding execute_multiClause [OF assms]
        by (simp add: estimationRule_def fst_bind_run snd_bind_run estimateGas_parts)
    next
      case est: (Inr estimates)
      with Inr True show ?thesis
        unfolding execute_multiClause [OF assms]
        by (auto simp: gasRule_def estimationRule_def fst_bind_run snd_bind_run
            estimateGas_parts sendTransaction_gas no_estimation_in_send
            sendTransaction_success_gas split: sum.splits)
    qed
  qed
qed

text \<open>
  The gas limit of every sending operation. Given a client, the gas limit of the body that
  a sending operation of \<^verbatim>\<open>executeTransactionOperation\<close> signs is the caller's gas limit
  when it is not 0; when the caller supplies none, the multi-clause operation requests a gas
  estimation for its clause list and uses \<^verbatim>\<open>Math.ceil(total * 1.2)\<close> of the estimated
  total, whereas the VET transfer uses the constant 21000 and the VTHO transfer the constant
  60000, and neither requests an estimation.
\<close>

lemma gas_of_sending_operations:
  assumes "createThorClient (cred_network credentials) (cred_nodeUrl credentials) = Inr client"
  shows
    "list_all (\<lambda>b. tx_gas b = gasRule node p operation)
       (signedBodies (snd (executeTransactionOperation lib node credentials p operation)))
     \<and> filter isGasEstimation (snd (executeTransactionOperation lib node credentials p operation))
         = estimationRule p operation
     \<and> (fst (executeTransactionOperation lib node credentials p operation) = Inr r \<longrightarrow>
          map tx_gas
            (signedBodies (snd (executeTransactionOperation lib node credentials p operation)))
            = [gasRule node p operation])"
proof (cases operation)
  case SendVet
  then show ?thesis using sendVet_gas [OF assms, of node p lib r] by (simp add: estimationRule_def)
next
  case SendVtho
  then show ?thesis using sendVtho_gas [OF assms, of node p lib r] by (simp add: estimationRule_def)
next
  case MultiClause
  then show ?thesis using multiClause_gas [OF assms, of node p lib r] by simp
qed

lemma example_multiClause_run:
  "fst (executeTransactionOperation (exampleLib (HttpNoResponse TypeError)) (exampleNode [])
          exampleCredentials (exampleTransactionParameters 0 False) MultiClause)
     = Inr (JObject
         [(''txId'', JString ''0x7e57''),
          (''origin'', JString ''0x00000000000000000000000000000000000000a1''),
          (''gas'', JInt 30002), (''gasPriceCoef'', JInt 0), (''expiration'', JInt 720),
          (''blockRef'', JString ''0x0000006400000000''), (''success'', JBool True),
          (''message'', JString ''Transaction submitted successfully''),
          (''type'', JString ''Multi-Clause Transaction''), (''clauseCount'', JInt 1)])"
  by code_simp

lemma example_gasRule:
  "gasRule (exampleNode []) (exampleTransactionParameters 0 False) MultiClause = 30002"
  "estimationRule (exampleTransactionParameters 0 False) MultiClause =
     [HttpPostAccounts [\<lparr>clause_to = Some ''0x00000000000000000000000000000000000000b2'',
          clause_value = ''1'', clause_data = ''0x''\<rparr>]]"
  by code_simp+

lemma example_multiClause_gas:
  "map tx_gas
     (signedBodies (snd (executeTransactionOperation (exampleLib (HttpNoResponse TypeError))
        (exampleNode []) exampleCredentials (exampleTransactionParameters 0 False) MultiClause)))
     = [30002]
   \<and> filter isGasEstimation
       (snd (executeTransactionOperation (exampleLib (HttpNoResponse TypeError))
          (exampleNode []) exampleCredentials (exampleTransactionParameters 0 False) MultiClause))
     = [HttpPostAccounts [\<lparr>clause_to = Some ''0x00000000000000000000000000000000000000b2'',
          clause_value = ''1'', clause_data = ''0x''\<rparr>]]"
  using gas_of_sending_operations [OF example_client,
      where lib = "exampleLib (HttpNoResponse TypeError)" and node = "exampleNode []"
        and p = "exampleTransactionParameters 0 False" and operation = MultiClause]
  by (simp add: example_multiClause_run example_gasRule)

text \<open>
  Claim C9. The \<^verbatim>\<open>gasLimit\<close> parameter of the VET transfer, the VTHO transfer and the
  multi-clause operation is described as \<^verbatim>\<open>Gas limit (0 for auto-estimate)\<close>, and the
  multi-clause operation does estimate. The VET transfer does not: with no gas limit from
  the caller, the body it signs and submits has the constant gas 21000 and no estimation is
  requested, although an estimation of the same clause on the same node gives 25001, that
  is 30002 with the margin of 20%.
\<close>

theorem sendVet_gas_is_constant_example:
  "isl (fst (executeTransactionOperation (exampleLib (HttpNoResponse TypeError)) (exampleNode [])
          exampleCredentials (exampleTransactionParameters 0 False) SendVet)) = False
   \<and> map tx_gas
       (signedBodies (snd (executeTransactionOperation (exampleLib (HttpNoResponse TypeError))
          (exampleNode []) exampleCredentials (exampleTransactionParameters 0 False) SendVet)))
     = [21000]
   \<and> filter isGasEstimation
       (snd (executeTransactionOperation (exampleLib (HttpNoResponse TypeError))
          (exampleNode []) exampleCredentials (exampleTransactionParameters 0 False) SendVet))
     = []
   \<and> fst (estimateGas (exampleNode [])
        [\<lparr>clause_to = Some ''0x00000000000000000000000000000000000000b2'',
          clause_value = ''1000000000000000000'', clause_data = ''0x''\<rparr>])
     = Inr [\<lparr>call_gasUsed = 25001, call_reverted = False, call_vmError = []\<rparr>]
   \<and> gasWithMargin [\<lparr>call_gasUsed = 25001, call_reverted = False, call_vmError = []\<rparr>] = 30002"
  by code_simp


end
